theory Spec2Isabelle
  imports Complex_Main
begin

text \<open>
  A model of \<^verbatim>\<open>app.js\<close>, the sales tracker: the list of representatives with their deal
  histories, the mutations that the page's listeners make, the date filter, the values
  shown by \<^verbatim>\<open>updateAnalytics\<close>, and saving to and loading from the local storage. What the
  program reads from its surroundings is an argument of the model: the clock, the
  answers of \<^verbatim>\<open>prompt\<close> and \<^verbatim>\<open>confirm\<close>, the values of the input fields, and the
  time zone of the host. Drawing the board, the statistics line and the exports read the
  state and change none of its variables; they are not modelled.
\<close>

section \<open>JavaScript numbers\<close>

text \<open>
  The amounts and revenues of \<^verbatim>\<open>app.js\<close> are JavaScript numbers. A number is modelled as one
  of the three special values of IEEE 754 or a finite value. Finite values are idealised
  as exact rationals: rounding, overflow to \<open>Infinity\<close> and underflow to zero of finite
  arithmetic are not modelled, and \<open>-0\<close> is identified with \<open>0\<close> (both are falsy).
\<close>

datatype jsnum = NaN | NegInf | Fin rat | PosInf

text \<open>The operator \<^verbatim>\<open>+\<close> on two numbers.\<close>

fun js_add :: "jsnum \<Rightarrow> jsnum \<Rightarrow> jsnum" where
  "js_add NaN _ = NaN"
| "js_add _ NaN = NaN"
| "js_add PosInf NegInf = NaN"
| "js_add NegInf PosInf = NaN"
| "js_add PosInf _ = PosInf"
| "js_add _ PosInf = PosInf"
| "js_add NegInf _ = NegInf"
| "js_add _ NegInf = NegInf"
| "js_add (Fin a) (Fin b) = Fin (a + b)"

text \<open>The operator \<^verbatim>\<open>>\<close> on two numbers: false as soon as one side is \<open>NaN\<close>.\<close>

fun js_gt :: "jsnum \<Rightarrow> jsnum \<Rightarrow> bool" where
  "js_gt NaN _ = False"
| "js_gt _ NaN = False"
| "js_gt NegInf _ = False"
| "js_gt _ NegInf = True"
| "js_gt _ PosInf = False"
| "js_gt PosInf _ = True"
| "js_gt (Fin a) (Fin b) = (b < a)"

text \<open>The operator \<^verbatim>\<open>>=\<close> on two numbers.\<close>

definition js_ge :: "jsnum \<Rightarrow> jsnum \<Rightarrow> bool" where
  "js_ge a b = (a \<noteq> NaN \<and> b \<noteq> NaN \<and> (js_gt a b \<or> a = b))"

text \<open>Truthiness of a number, as the operators \<^verbatim>\<open>||\<close> and \<^verbatim>\<open>!\<close> see it.\<close>

definition numTruthy :: "jsnum \<Rightarrow> bool" where
  "numTruthy n = (n \<noteq> NaN \<and> n \<noteq> Fin 0)"

definition isFinite :: "jsnum \<Rightarrow> bool" where
  "isFinite n = (case n of Fin _ \<Rightarrow> True | _ \<Rightarrow> False)"

text \<open>A non-negative number: zero, a positive finite value or \<open>Infinity\<close>.\<close>

definition nonNegative :: "jsnum \<Rightarrow> bool" where
  "nonNegative n = (case n of Fin q \<Rightarrow> 0 \<le> q | PosInf \<Rightarrow> True | _ \<Rightarrow> False)"

definition negate :: "jsnum \<Rightarrow> jsnum" where
  "negate n = (case n of NaN \<Rightarrow> NaN | NegInf \<Rightarrow> PosInf | PosInf \<Rightarrow> NegInf | Fin q \<Rightarrow> Fin (- q))"

section \<open>Strings\<close>

text \<open>
  Strings are byte strings, read as ASCII. White space is the ASCII part of the
  language's white space and line terminators (tab, line feed, vertical tab, form feed,
  carriage return, space); \<^verbatim>\<open>toLowerCase\<close> maps the letters A to Z. Letters and white
  space outside ASCII are not modelled.
\<close>

definition isWhiteSpace :: "char \<Rightarrow> bool" where
  "isWhiteSpace c = (of_char c \<in> {9, 10, 11, 12, 13, 32 :: nat})"

definition trimStart :: "string \<Rightarrow> string" where
  "trimStart s = dropWhile isWhiteSpace s"

definition trim :: "string \<Rightarrow> string" where
  "trim s = rev (dropWhile isWhiteSpace (rev (dropWhile isWhiteSpace s)))"

definition toLowerChar :: "char \<Rightarrow> char" where
  "toLowerChar c =
     (case map_of (zip ''ABCDEFGHIJKLMNOPQRSTUVWXYZ'' ''abcdefghijklmnopqrstuvwxyz'') c of
        Some l \<Rightarrow> l
      | None \<Rightarrow> c)"

definition toLowerCase :: "string \<Rightarrow> string" where
  "toLowerCase s = map toLowerChar s"

definition isDigit :: "char \<Rightarrow> bool" where
  "isDigit c = (c \<in> set ''0123456789'')"

definition digitVal :: "char \<Rightarrow> nat" where
  "digitVal c = of_char c - 48"

definition digitsVal :: "string \<Rightarrow> nat" where
  "digitsVal ds = foldl (\<lambda>a c. 10 * a + digitVal c) 0 ds"

subsection \<open>parseFloat\<close>

text \<open>
  \<^verbatim>\<open>parseFloat\<close> skips leading white space and reads the longest prefix of the rest that
  is a decimal literal: an optional sign, then \<open>Infinity\<close> or digits with an optional
  fraction and an optional exponent. Characters after that prefix are ignored; with no
  such prefix the result is \<open>NaN\<close>.
\<close>

text \<open>The exponent part at the head of a string; zero when there is none.\<close>

definition parseExponent :: "string \<Rightarrow> int" where
  "parseExponent s =
     (case s of
        [] \<Rightarrow> 0
      | e # r \<Rightarrow>
          if e = CHR ''e'' \<or> e = CHR ''E'' then
            (case r of
               [] \<Rightarrow> 0
             | c # r' \<Rightarrow>
                 if c = CHR ''-'' then
                   (if takeWhile isDigit r' = [] then 0 else - int (digitsVal (takeWhile isDigit r')))
                 else if c = CHR ''+'' then
                   (if takeWhile isDigit r' = [] then 0 else int (digitsVal (takeWhile isDigit r')))
                 else
                   (if takeWhile isDigit r = [] then 0 else int (digitsVal (takeWhile isDigit r))))
          else 0)"

definition scale10 :: "rat \<Rightarrow> int \<Rightarrow> rat" where
  "scale10 m e = (if 0 \<le> e then m * 10 ^ nat e else m / 10 ^ nat (- e))"

text \<open>An unsigned decimal literal at the head of a string.\<close>

definition parseUnsigned :: "string \<Rightarrow> jsnum" where
  "parseUnsigned s =
     (if take 8 s = ''Infinity'' then PosInf
      else
        let ip = takeWhile isDigit s;
            r1 = dropWhile isDigit s
        in (case r1 of
              CHR ''.'' # t \<Rightarrow>
                (let fp = takeWhile isDigit t;
                     r2 = dropWhile isDigit t
                 in if ip = [] \<and> fp = [] then NaN
                    else Fin (scale10 (rat_of_nat (digitsVal (ip @ fp)) / 10 ^ length fp)
                                (parseExponent r2)))
            | _ \<Rightarrow>
                if ip = [] then NaN
                else Fin (scale10 (rat_of_nat (digitsVal ip)) (parseExponent r1))))"

definition parseFloat :: "string \<Rightarrow> jsnum" where
  "parseFloat s =
     (case trimStart s of
        [] \<Rightarrow> NaN
      | c # r \<Rightarrow>
          if c = CHR ''-'' then negate (parseUnsigned r)
          else if c = CHR ''+'' then parseUnsigned r
          else parseUnsigned (c # r))"

section \<open>Dates\<close>

text \<open>
  A \<^verbatim>\<open>Date\<close> is modelled by its time value, the milliseconds since the epoch, an
  integer. \<^verbatim>\<open>toISOString\<close> prints a time value in UTC, as
  \<^verbatim>\<open>YYYY-MM-DDTHH:mm:ss.sssZ\<close>, with a signed six-digit year outside the years 0 to 9999.
  The bounds of the range of time values, about 270000 years either side of the epoch,
  are not modelled.
\<close>

definition msPerDay :: int where
  "msPerDay = 86400000"

text \<open>Year, month (1 to 12) and day of the month of a day number counted from 1970-01-01.\<close>

definition civilFromDays :: "int \<Rightarrow> int \<times> int \<times> int" where
  "civilFromDays z =
     (let shifted = z + 719468;
          era = shifted div 146097;
          doe = shifted mod 146097;
          yoe = (doe - doe div 1460 + doe div 36524 - doe div 146096) div 365;
          doy = doe - (365 * yoe + yoe div 4 - yoe div 100);
          mp = (5 * doy + 2) div 153;
          d = doy - (153 * mp + 2) div 5 + 1;
          m = (if mp < 10 then mp + 3 else mp - 9);
          y = yoe + era * 400 + (if m \<le> 2 then 1 else 0)
      in (y, m, d))"

text \<open>The day number of a year, month and day: the inverse of \<open>civilFromDays\<close>.\<close>

definition daysFromCivil :: "int \<Rightarrow> int \<Rightarrow> int \<Rightarrow> int" where
  "daysFromCivil y m d =
     (let y' = (if m \<le> 2 then y - 1 else y);
          era = y' div 400;
          yoe = y' mod 400;
          doy = (153 * (if 2 < m then m - 3 else m + 9) + 2) div 5 + d - 1;
          doe = yoe * 365 + yoe div 4 - yoe div 100 + doy
      in era * 146097 + doe - 719468)"

definition padNat :: "nat \<Rightarrow> nat \<Rightarrow> string" where
  "padNat w n = map (\<lambda>i. ''0123456789'' ! ((n div 10 ^ i) mod 10)) (rev [0..<w])"

definition yearString :: "int \<Rightarrow> string" where
  "yearString y =
     (if 0 \<le> y \<and> y \<le> 9999 then padNat 4 (nat y)
      else (if y < 0 then ''-'' else ''+'') @ padNat 6 (nat \<bar>y\<bar>))"

definition toISOString :: "int \<Rightarrow> string" where
  "toISOString t =
     (case civilFromDays (t div msPerDay) of
        (y, m, d) \<Rightarrow>
          let ms = nat (t mod msPerDay)
          in yearString y @ ''-'' @ padNat 2 (nat m) @ ''-'' @ padNat 2 (nat d) @ ''T''
             @ padNat 2 (ms div 3600000) @ '':'' @ padNat 2 (ms div 60000 mod 60) @ '':''
             @ padNat 2 (ms div 1000 mod 60) @ ''.'' @ padNat 3 (ms mod 1000) @ ''Z'')"

text \<open>
  The parts of \<^verbatim>\<open>Date\<close> that depend on the host's time zone and date parser are
  parameters of the model, one field for each form the program uses:
  \<^item> \<open>localMidnight t\<close>: \<^verbatim>\<open>new Date(now.getFullYear(), now.getMonth(), now.getDate())\<close>
    for \<open>now\<close> with time value \<open>t\<close>;
  \<^item> \<open>localMonthStart t\<close>: \<^verbatim>\<open>new Date(now.getFullYear(), now.getMonth(), 1)\<close>;
  \<^item> \<open>setHoursStart t\<close>: the time value after \<^verbatim>\<open>setHours(0, 0, 0, 0)\<close>;
  \<^item> \<open>setHoursEnd t\<close>: the time value after \<^verbatim>\<open>setHours(23, 59, 59, 999)\<close>;
  \<^item> \<open>parseDate s\<close>: the time value of \<^verbatim>\<open>new Date(s)\<close> for a string \<open>s\<close>, \<open>None\<close> for an
    invalid date.
\<close>

record host =
  localMidnight :: "int \<Rightarrow> int"
  localMonthStart :: "int \<Rightarrow> int"
  setHoursStart :: "int \<Rightarrow> int"
  setHoursEnd :: "int \<Rightarrow> int"
  parseDate :: "string \<Rightarrow> int option"

text \<open>
  A host whose local time is UTC. Its parser reads the form \<^verbatim>\<open>YYYY-MM-DD\<close>, the value of
  a date input, which the language reads as midnight UTC of that day.
\<close>

definition utcMonthStart :: "int \<Rightarrow> int" where
  "utcMonthStart t =
     (case civilFromDays (t div msPerDay) of
        (y, m, d) \<Rightarrow> (t div msPerDay - (d - 1)) * msPerDay)"

definition parseDateOnly :: "string \<Rightarrow> int option" where
  "parseDateOnly s =
     (if length s = 10 \<and> s ! 4 = CHR ''-'' \<and> s ! 7 = CHR ''-''
         \<and> list_all isDigit (take 4 s @ take 2 (drop 5 s) @ drop 8 s)
      then
        let y = int (digitsVal (take 4 s));
            m = int (digitsVal (take 2 (drop 5 s)));
            d = int (digitsVal (drop 8 s))
        in if civilFromDays (daysFromCivil y m d) = (y, m, d)
           then Some (daysFromCivil y m d * msPerDay) else None
      else None)"

definition utcHost :: host where
  "utcHost =
     \<lparr> localMidnight = (\<lambda>t. t - t mod msPerDay),
       localMonthStart = utcMonthStart,
       setHoursStart = (\<lambda>t. t - t mod msPerDay),
       setHoursEnd = (\<lambda>t. t - t mod msPerDay + (msPerDay - 1)),
       parseDate = parseDateOnly \<rparr>"

section \<open>JSON values and the local storage\<close>

text \<open>
  The values that \<^verbatim>\<open>JSON.parse\<close> returns, and the objects the program holds in memory: an
  object is the list of its properties in insertion order.
\<close>

datatype jsval =
    JNull
  | JBool bool
  | JNum jsnum
  | JStr string
  | JArr "jsval list"
  | JObj "(string \<times> jsval) list"

text \<open>
  \<open>jsonValue v\<close> is the value that \<^verbatim>\<open>JSON.parse(JSON.stringify(v))\<close> returns: JSON has no
  \<open>NaN\<close> and no infinities, \<^verbatim>\<open>JSON.stringify\<close> writes them as \<^verbatim>\<open>null\<close>.
\<close>

fun jsonValue :: "jsval \<Rightarrow> jsval" where
  "jsonValue JNull = JNull"
| "jsonValue (JBool b) = JBool b"
| "jsonValue (JNum n) = (if isFinite n then JNum n else JNull)"
| "jsonValue (JStr s) = JStr s"
| "jsonValue (JArr xs) = JArr (map jsonValue xs)"
| "jsonValue (JObj kvs) = JObj (map (\<lambda>kv. (fst kv, jsonValue (snd kv))) kvs)"

text \<open>
  A stored string is represented by what \<^verbatim>\<open>JSON.parse\<close> makes of it: the value it denotes,
  or \<open>NotJson\<close> for a string that \<^verbatim>\<open>JSON.parse\<close> rejects (the empty string is one).
\<close>

datatype blob = NotJson | JsonText jsval

datatype error = SecurityError | QuotaExceededError | SyntaxError | TypeError

definition JSON_stringify :: "jsval \<Rightarrow> blob" where
  "JSON_stringify v = JsonText (jsonValue v)"

definition JSON_parse :: "blob \<Rightarrow> error + jsval" where
  "JSON_parse t = (case t of NotJson \<Rightarrow> Inl SyntaxError | JsonText v \<Rightarrow> Inr v)"

text \<open>
  The browser's \<^verbatim>\<open>localStorage\<close>: every access throws when the storage is blocked, a write
  throws when the quota is exhausted.
\<close>

record storage =
  blocked :: bool
  full :: bool
  items :: "string \<Rightarrow> blob option"

definition getItem :: "storage \<Rightarrow> string \<Rightarrow> error + blob option" where
  "getItem ls k = (if blocked ls then Inl SecurityError else Inr (items ls k))"

definition setItem :: "storage \<Rightarrow> string \<Rightarrow> blob \<Rightarrow> error + storage" where
  "setItem ls k v =
     (if blocked ls then Inl SecurityError
      else if full ls then Inl QuotaExceededError
      else Inr (ls\<lparr>items := (items ls)(k \<mapsto> v)\<rparr>))"

section \<open>The domain model\<close>

text \<open>
  A deal record \<^verbatim>\<open>{date, amount}\<close>. The program stores \<^verbatim>\<open>new Date().toISOString()\<close> and
  reads it back with \<^verbatim>\<open>new Date(deal.date)\<close>, which returns the time value that was
  printed; the model keeps that time value in \<open>date\<close>.
\<close>

record deal =
  date :: int
  amount :: jsnum

text \<open>The object \<^verbatim>\<open>{deals, revenue}\<close> that \<^verbatim>\<open>getFilteredStats\<close> returns.\<close>

record stats =
  deals :: nat
  revenue :: jsnum

text \<open>
  A representative \<^verbatim>\<open>{id, name, deals, revenue, dealHistory}\<close>. The field \<^verbatim>\<open>id\<close> is
  \<open>rep_id\<close> here. The deal count only ever counts up from zero by one: a natural number.
\<close>

record rep =
  rep_id :: int
  name :: string
  deals :: nat
  revenue :: jsnum
  dealHistory :: "deal list"

text \<open>The objects in memory, as values: what \<^verbatim>\<open>JSON.stringify\<close> is given.\<close>

definition dealJs :: "deal \<Rightarrow> jsval" where
  "dealJs d = JObj [(''date'', JStr (toISOString (date d))), (''amount'', JNum (amount d))]"

definition repJs :: "rep \<Rightarrow> jsval" where
  "repJs r =
     JObj [(''id'', JNum (Fin (of_int (rep_id r)))),
           (''name'', JStr (name r)),
           (''deals'', JNum (Fin (of_nat (rep.deals r)))),
           (''revenue'', JNum (rep.revenue r)),
           (''dealHistory'', JArr (map dealJs (dealHistory r)))]"

text \<open>
  The module-level state: the filter variables, the list of representatives and the local
  storage, with the messages shown by \<^verbatim>\<open>alert\<close> so far. \<open>None\<close> is \<^verbatim>\<open>null\<close>.
\<close>

record state =
  currentFilter :: string
  customStartDate :: "string option"
  customEndDate :: "string option"
  salesReps :: "rep list"
  localStorage :: storage
  alerts :: "string list"

definition alert :: "string \<Rightarrow> state \<Rightarrow> state" where
  "alert msg st = st\<lparr>alerts := alerts st @ [msg]\<rparr>"

section \<open>Persistence\<close>

definition saveData :: "state \<Rightarrow> state" where
  "saveData st =
     (case setItem (localStorage st) ''salesReps'' (JSON_stringify (JArr (map repJs (salesReps st)))) of
        Inl e \<Rightarrow> alert ''Error saving data! Check if your browser allows localStorage.'' st
      | Inr ls \<Rightarrow> st\<lparr>localStorage := ls\<rparr>)"

text \<open>Truthiness of a value: arrays and objects are truthy, the empty array too.\<close>

fun truthy :: "jsval \<Rightarrow> bool" where
  "truthy JNull = False"
| "truthy (JBool b) = b"
| "truthy (JNum n) = numTruthy n"
| "truthy (JStr s) = (s \<noteq> [])"
| "truthy (JArr xs) = True"
| "truthy (JObj kvs) = True"

text \<open>
  Reading \<^verbatim>\<open>rep.dealHistory\<close>: a \<^verbatim>\<open>TypeError\<close> on \<^verbatim>\<open>null\<close>, the property of an object,
  \<^verbatim>\<open>undefined\<close> (\<open>None\<close>) on an object without it and on every other value.
\<close>

definition readDealHistory :: "jsval \<Rightarrow> error + jsval option" where
  "readDealHistory v =
     (case v of
        JNull \<Rightarrow> Inl TypeError
      | JObj kvs \<Rightarrow> Inr (map_of kvs ''dealHistory'')
      | _ \<Rightarrow> Inr None)"

fun showNat :: "nat \<Rightarrow> string" where
  "showNat n =
     (if n < 10 then [''0123456789'' ! n]
      else showNat (n div 10) @ [''0123456789'' ! (n mod 10)])"

text \<open>
  The properties that the spread \<^verbatim>\<open>{...rep}\<close> copies: those of an object, the indexed
  elements of an array or string, none of a number or boolean.
\<close>

definition ownProperties :: "jsval \<Rightarrow> (string \<times> jsval) list" where
  "ownProperties v =
     (case v of
        JObj kvs \<Rightarrow> kvs
      | JArr xs \<Rightarrow> zip (map showNat [0..<length xs]) xs
      | JStr s \<Rightarrow> zip (map showNat [0..<length s]) (map (\<lambda>c. JStr [c]) s)
      | _ \<Rightarrow> [])"

text \<open>
  A property in an object literal after a spread: it replaces the value of a property of
  that name where it stands, or is added at the end.
\<close>

fun setProperty :: "string \<Rightarrow> jsval \<Rightarrow> (string \<times> jsval) list \<Rightarrow> (string \<times> jsval) list" where
  "setProperty k v [] = [(k, v)]"
| "setProperty k v (p # ps) = (if fst p = k then (k, v) # ps else p # setProperty k v ps)"

text \<open>The function mapped over the parsed entries (lines 35 to 44).\<close>

definition migrateRep :: "jsval \<Rightarrow> error + jsval" where
  "migrateRep rep =
     (case readDealHistory rep of
        Inl e \<Rightarrow> Inl e
      | Inr dh \<Rightarrow>
          if \<not> (case dh of None \<Rightarrow> False | Some v \<Rightarrow> truthy v) then
            Inr (JObj (setProperty ''dealHistory'' (JArr [])
                        (setProperty ''revenue'' (JNum (Fin 0)) (ownProperties rep))))
          else Inr rep)"

fun mapE :: "('a \<Rightarrow> error + 'b) \<Rightarrow> 'a list \<Rightarrow> error + 'b list" where
  "mapE f [] = Inr []"
| "mapE f (x # xs) =
     (case f x of
        Inl e \<Rightarrow> Inl e
      | Inr y \<Rightarrow> (case mapE f xs of Inl e \<Rightarrow> Inl e | Inr ys \<Rightarrow> Inr (y # ys)))"

text \<open>
  The load at the start of the page (lines 27 to 52): every exception leaves the list
  empty, and so does a missing item. A value that is no array has no \<^verbatim>\<open>map\<close> method: a
  \<^verbatim>\<open>TypeError\<close>.
\<close>

definition loadSalesReps :: "storage \<Rightarrow> jsval list" where
  "loadSalesReps ls =
     (case getItem ls ''salesReps'' of
        Inl e \<Rightarrow> []
      | Inr None \<Rightarrow> []
      | Inr (Some stored) \<Rightarrow>
          (case JSON_parse stored of
             Inl e \<Rightarrow> []
           | Inr (JArr xs) \<Rightarrow> (case mapE migrateRep xs of Inl e \<Rightarrow> [] | Inr ys \<Rightarrow> ys)
           | Inr _ \<Rightarrow> []))"

section \<open>The mutations\<close>

text \<open>
  \<^verbatim>\<open>addRep\<close>: \<open>now\<close> is \<^verbatim>\<open>Date.now()\<close> and \<open>input\<close> the value of the name field.
  Clearing and focusing that field afterwards changes no variable of the model.
\<close>

definition addRep :: "int \<Rightarrow> string \<Rightarrow> state \<Rightarrow> state" where
  "addRep now input st =
     (let nm = trim input
      in if nm = [] then alert ''Please enter a sales rep name!'' st
         else if find (\<lambda>rep. toLowerCase (name rep) = toLowerCase nm) (salesReps st) \<noteq> None
         then alert ''This sales rep already exists!'' st
         else saveData (st\<lparr>salesReps := salesReps st @
                [\<lparr>rep_id = now, name = nm, deals = 0, revenue = Fin 0, dealHistory = []\<rparr>]\<rparr>))"

text \<open>
  The object that \<^verbatim>\<open>find\<close> returns is changed in place: in the list, the first
  representative with the identifier is replaced by its changed copy.
\<close>

fun mutateFound :: "int \<Rightarrow> (rep \<Rightarrow> rep) \<Rightarrow> rep list \<Rightarrow> rep list" where
  "mutateFound i f [] = []"
| "mutateFound i f (r # rs) = (if rep_id r = i then f r # rs else r # mutateFound i f rs)"

text \<open>The recorded value \<^verbatim>\<open>parseFloat(dealValue) || 0\<close>.\<close>

definition dealAmount :: "string \<Rightarrow> jsnum" where
  "dealAmount s = (if numTruthy (parseFloat s) then parseFloat s else Fin 0)"

text \<open>
  \<^verbatim>\<open>addDeal(id)\<close>: \<open>dealValue\<close> is what \<^verbatim>\<open>prompt\<close> returns (\<open>None\<close> when the user
  cancels) and \<open>now\<close> the time value of \<^verbatim>\<open>new Date()\<close>.
\<close>

definition addDeal :: "int \<Rightarrow> string option \<Rightarrow> int \<Rightarrow> state \<Rightarrow> state" where
  "addDeal i dealValue now st =
     (case find (\<lambda>r. rep_id r = i) (salesReps st) of
        None \<Rightarrow> st
      | Some rep \<Rightarrow>
          (case dealValue of
             None \<Rightarrow> st
           | Some s \<Rightarrow>
               let v = dealAmount s
               in saveData (st\<lparr>salesReps :=
                    mutateFound i
                      (\<lambda>r. r\<lparr>deals := deals r + 1,
                             revenue := js_add (revenue r) v,
                             dealHistory := dealHistory r @ [\<lparr>date = now, amount = v\<rparr>]\<rparr>)
                      (salesReps st)\<rparr>)))"

text \<open>\<^verbatim>\<open>removeRep(id)\<close>: \<open>confirmed\<close> is what \<^verbatim>\<open>confirm\<close> returns.\<close>

definition removeRep :: "int \<Rightarrow> bool \<Rightarrow> state \<Rightarrow> state" where
  "removeRep i confirmed st =
     (if confirmed then saveData (st\<lparr>salesReps := filter (\<lambda>r. rep_id r \<noteq> i) (salesReps st)\<rparr>)
      else st)"

text \<open>
  The two listeners of the date filter. The first stores the selected value at once; what
  else it does (showing the range inputs, drawing the board) changes no variable. The
  second stores both input values before it looks at them.
\<close>

definition dateFilterChange :: "string \<Rightarrow> state \<Rightarrow> state" where
  "dateFilterChange v st = st\<lparr>currentFilter := v\<rparr>"

definition applyDateFilterClick :: "string \<Rightarrow> string \<Rightarrow> state \<Rightarrow> state" where
  "applyDateFilterClick startValue endValue st =
     (let st' = st\<lparr>customStartDate := Some startValue, customEndDate := Some endValue\<rparr>
      in if startValue = [] \<or> endValue = [] then alert ''Please select both start and end dates'' st'
         else st')"

datatype event =
    AddRep int string
  | AddDeal int "string option" int
  | RemoveRep int bool
  | DateFilterChange string
  | ApplyDateFilterClick string string

fun step :: "state \<Rightarrow> event \<Rightarrow> state" where
  "step st (AddRep now input) = addRep now input st"
| "step st (AddDeal i dealValue now) = addDeal i dealValue now st"
| "step st (RemoveRep i confirmed) = removeRep i confirmed st"
| "step st (DateFilterChange v) = dateFilterChange v st"
| "step st (ApplyDateFilterClick startValue endValue) = applyDateFilterClick startValue endValue st"

definition run :: "state \<Rightarrow> event list \<Rightarrow> state" where
  "run st evs = foldl step st evs"

text \<open>The state of a page that found nothing in the storage.\<close>

definition initialState :: "storage \<Rightarrow> state" where
  "initialState ls =
     \<lparr> currentFilter = ''all'', customStartDate = None, customEndDate = None,
       salesReps = [], localStorage = ls, alerts = [] \<rparr>"

definition emptyStorage :: storage where
  "emptyStorage = \<lparr> blocked = False, full = False, items = (\<lambda>k. None) \<rparr>"

section \<open>Filtering and aggregation\<close>

text \<open>A comparison with a date that may be invalid: false when it is.\<close>

definition notBefore :: "int \<Rightarrow> int option \<Rightarrow> bool" where
  "notBefore t start = (case start of None \<Rightarrow> False | Some s \<Rightarrow> s \<le> t)"

definition notAfter :: "int \<Rightarrow> int option \<Rightarrow> bool" where
  "notAfter t finish = (case finish of None \<Rightarrow> False | Some e \<Rightarrow> t \<le> e)"

text \<open>
  \<^verbatim>\<open>getFilteredDeals(rep)\<close>, with the host and the time value \<open>now\<close> of \<^verbatim>\<open>new Date()\<close>. A
  custom bound is falsy when it is \<^verbatim>\<open>null\<close> or the empty string.
\<close>

definition getFilteredDeals :: "host \<Rightarrow> int \<Rightarrow> state \<Rightarrow> rep \<Rightarrow> deal list" where
  "getFilteredDeals h now st rep =
     (if currentFilter st = ''all'' then dealHistory rep
      else if currentFilter st = ''today'' then
        filter (\<lambda>deal. localMidnight h now \<le> date deal) (dealHistory rep)
      else if currentFilter st = ''week'' then
        filter (\<lambda>deal. now - 7 * 24 * 60 * 60 * 1000 \<le> date deal) (dealHistory rep)
      else if currentFilter st = ''month'' then
        filter (\<lambda>deal. localMonthStart h now \<le> date deal) (dealHistory rep)
      else if currentFilter st = ''custom'' then
        (case (customStartDate st, customEndDate st) of
           (Some s, Some e) \<Rightarrow>
             if s = [] \<or> e = [] then dealHistory rep
             else
               filter (\<lambda>deal. notBefore (date deal) (parseDate h s)
                             \<and> notAfter (date deal) (map_option (setHoursEnd h) (parseDate h e)))
                 (dealHistory rep)
         | _ \<Rightarrow> dealHistory rep)
      else dealHistory rep)"

text \<open>The reduction \<^verbatim>\<open>reduce((sum, deal) => sum + deal.amount, 0)\<close>.\<close>

definition sumAmounts :: "deal list \<Rightarrow> jsnum" where
  "sumAmounts ds = foldl (\<lambda>sum deal. js_add sum (amount deal)) (Fin 0) ds"

definition getFilteredStats :: "host \<Rightarrow> int \<Rightarrow> state \<Rightarrow> rep \<Rightarrow> stats" where
  "getFilteredStats h now st rep =
     \<lparr> stats.deals = length (getFilteredDeals h now st rep),
       stats.revenue = sumAmounts (getFilteredDeals h now st rep) \<rparr>"

text \<open>
  The four values of \<^verbatim>\<open>updateAnalytics\<close>. Every call of \<^verbatim>\<open>getFilteredDeals\<close> reads the
  clock for itself (line 143), so the model gives each call its own reading: \<open>clock k\<close> is
  the time value that the call number \<open>k\<close> reads, counted from zero in the order of the
  calls.

  The reduction of \<^verbatim>\<open>topPerformer\<close> has no initial value: it starts from the first
  representative and visits the others from left to right. Each step calls
  \<^verbatim>\<open>getFilteredStats\<close> twice, first for the visited representative and then for the
  best one so far (\<^verbatim>\<open>top\<close> in the program). With no representative the page shows a dash.
\<close>

fun reduceTop :: "host \<Rightarrow> (nat \<Rightarrow> int) \<Rightarrow> state \<Rightarrow> nat \<Rightarrow> rep \<Rightarrow> rep list \<Rightarrow> rep" where
  "reduceTop h clock st k best [] = best"
| "reduceTop h clock st k best (rep # rs) =
     reduceTop h clock st (k + 2)
       (if js_gt (stats.revenue (getFilteredStats h (clock k) st rep))
                 (stats.revenue (getFilteredStats h (clock (k + 1)) st best))
        then rep else best)
       rs"

definition topPerformer :: "host \<Rightarrow> (nat \<Rightarrow> int) \<Rightarrow> state \<Rightarrow> rep option" where
  "topPerformer h clock st =
     (case salesReps st of
        [] \<Rightarrow> None
      | r # rs \<Rightarrow> Some (reduceTop h clock st 0 r rs))"

text \<open>The highest single deal: one call of \<^verbatim>\<open>getFilteredDeals\<close> for each representative.\<close>

fun highestFrom :: "host \<Rightarrow> (nat \<Rightarrow> int) \<Rightarrow> state \<Rightarrow> nat \<Rightarrow> jsnum \<Rightarrow> rep list \<Rightarrow> jsnum" where
  "highestFrom h clock st k hi [] = hi"
| "highestFrom h clock st k hi (rep # rs) =
     highestFrom h clock st (k + 1)
       (foldl (\<lambda>hi deal. if js_gt (amount deal) hi then amount deal else hi) hi
          (getFilteredDeals h (clock k) st rep))
       rs"

definition highestDeal :: "host \<Rightarrow> (nat \<Rightarrow> int) \<Rightarrow> state \<Rightarrow> jsnum" where
  "highestDeal h clock st = highestFrom h clock st 0 (Fin 0) (salesReps st)"

text \<open>
  The deals of today: \<open>now\<close> is the time value of \<^verbatim>\<open>const today = new Date()\<close> (line 226),
  the one reading of this part; \<^verbatim>\<open>getFilteredDeals\<close> is not called.
\<close>

definition dealsToday :: "host \<Rightarrow> int \<Rightarrow> state \<Rightarrow> nat" where
  "dealsToday h now st =
     foldl (\<lambda>n rep.
        foldl (\<lambda>n deal. if setHoursStart h (date deal) = setHoursStart h now then n + 1 else n) n
          (dealHistory rep))
       0 (salesReps st)"

record analytics =
  topPerformerText :: string
  highestDealValue :: jsnum
  totalReps :: nat
  dealsTodayCount :: nat

text \<open>
  \<^verbatim>\<open>updateAnalytics\<close>: with \<open>n\<close> representatives the reduction makes the calls \<open>0\<close> to
  \<open>2 * (n - 1) - 1\<close> of \<^verbatim>\<open>getFilteredDeals\<close>, and the highest deal the \<open>n\<close> calls after
  them; \<open>now\<close> is the reading of line 226.
\<close>

definition updateAnalytics :: "host \<Rightarrow> (nat \<Rightarrow> int) \<Rightarrow> int \<Rightarrow> state \<Rightarrow> analytics" where
  "updateAnalytics h clock now st =
     \<lparr> topPerformerText = (case topPerformer h clock st of None \<Rightarrow> ''-'' | Some r \<Rightarrow> name r),
       highestDealValue =
         highestDeal h (\<lambda>k. clock (2 * (length (salesReps st) - 1) + k)) st,
       totalReps = length (salesReps st),
       dealsTodayCount = dealsToday h now st \<rparr>"

section \<open>Predicates of the specification\<close>


text \<open>A representative of the list has the name, up to the case of letters.\<close>

definition nameTaken :: "string \<Rightarrow> rep list \<Rightarrow> bool" where
  "nameTaken nm reps = (\<exists>r \<in> set reps. toLowerCase (name r) = toLowerCase nm)"

text \<open>The representative that \<^verbatim>\<open>addRep\<close> pushes.\<close>

definition newRep :: "int \<Rightarrow> string \<Rightarrow> rep" where
  "newRep now nm = \<lparr>rep_id = now, name = nm, deals = 0, revenue = Fin 0, dealHistory = []\<rparr>"

text \<open>The revenue of a representative inside the active window at the time \<open>now\<close>.\<close>

definition filteredRevenue :: "host \<Rightarrow> int \<Rightarrow> state \<Rightarrow> rep \<Rightarrow> jsnum" where
  "filteredRevenue h now st r = stats.revenue (getFilteredStats h now st r)"

text \<open>A deal falls on the local calendar day of \<open>now\<close>.\<close>

definition sameLocalDay :: "host \<Rightarrow> int \<Rightarrow> deal \<Rightarrow> bool" where
  "sameLocalDay h now deal = (setHoursStart h (date deal) = setHoursStart h now)"

text \<open>The numbers of a representative are finite: the ones JSON can write.\<close>

definition finiteRep :: "rep \<Rightarrow> bool" where
  "finiteRep r = (isFinite (revenue r) \<and> list_all (\<lambda>d. isFinite (amount d)) (dealHistory r))"

section \<open>The model on examples\<close>

lemma parseFloat_examples:
  "parseFloat ''12.5'' = Fin (25 / 2)"
  "parseFloat '' 3e2 units'' = Fin 300"
  "parseFloat ''-5'' = Fin (- 5)"
  "parseFloat ''.5'' = Fin (1 / 2)"
  "parseFloat ''abc'' = NaN"
  "parseFloat [] = NaN"
  "parseFloat ''$5'' = NaN"
  "parseFloat ''Infinity'' = PosInf"
  "parseFloat ''-Infinity'' = NegInf"
  by (simp_all add: parseFloat_def parseUnsigned_def parseExponent_def scale10_def trimStart_def
        isWhiteSpace_def isDigit_def digitsVal_def digitVal_def negate_def)

lemma toISOString_examples:
  "toISOString 0 = ''1970-01-01T00:00:00.000Z''"
  "toISOString 1000 = ''1970-01-01T00:00:01.000Z''"
  "toISOString 1700000000000 = ''2023-11-14T22:13:20.000Z''"
  unfolding toISOString_def civilFromDays_def msPerDay_def yearString_def padNat_def Let_def
  by (simp_all add: upt_rec)

lemma utcMonthStart_example: "utcMonthStart 1700000000000 = 1698796800000"
  unfolding utcMonthStart_def civilFromDays_def msPerDay_def Let_def
  by simp

lemma utcHost_examples:
  "localMonthStart utcHost 1700000000000 = 1698796800000"
  "setHoursStart utcHost 1700000000000 = 1699920000000"
  "setHoursEnd utcHost 1700000000000 = 1700006399999"
  by (simp_all add: utcHost_def utcMonthStart_example msPerDay_def)

section \<open>What the mutations keep\<close>

lemma alert_fields [simp]:
  "salesReps (alert m st) = salesReps st"
  "currentFilter (alert m st) = currentFilter st"
  "customStartDate (alert m st) = customStartDate st"
  "customEndDate (alert m st) = customEndDate st"
  "localStorage (alert m st) = localStorage st"
  by (simp_all add: alert_def)

lemma saveData_fields [simp]:
  "salesReps (saveData st) = salesReps st"
  "currentFilter (saveData st) = currentFilter st"
  "customStartDate (saveData st) = customStartDate st"
  "customEndDate (saveData st) = customEndDate st"
  by (simp_all add: saveData_def split: sum.splits)


lemma mutateFound_length [simp]: "length (mutateFound i f rs) = length rs"
  by (induction rs) auto

lemma mutateFound_nth_other:
  "k < length rs \<Longrightarrow> rep_id (rs ! k) \<noteq> i \<Longrightarrow> mutateFound i f rs ! k = rs ! k"
proof (induction rs arbitrary: k)
  case Nil
  then show ?case by simp
next
  case (Cons r rs)
  then show ?case by (cases k) auto
qed

lemma mutateFound_nth_keeps:
  assumes "\<And>r. rep_id (f r) = rep_id r \<and> name (f r) = name r"
  shows "k < length rs \<Longrightarrow>
         rep_id (mutateFound i f rs ! k) = rep_id (rs ! k) \<and> name (mutateFound i f rs ! k) = name (rs ! k)"
proof (induction rs arbitrary: k)
  case Nil
  then show ?case by simp
next
  case (Cons r rs)
  then show ?case using assms by (cases k) auto
qed

lemma mutateFound_absent: "\<forall>r \<in> set rs. rep_id r \<noteq> i \<Longrightarrow> mutateFound i f rs = rs"
  by (induction rs) auto

lemma find_mutateFound:
  "find (\<lambda>r. rep_id r = i) rs = Some r \<Longrightarrow> (\<And>x. rep_id (f x) = rep_id x) \<Longrightarrow>
   find (\<lambda>r. rep_id r = i) (mutateFound i f rs) = Some (f r)"
  by (induction rs) (auto split: if_splits)

lemmas run_simps =
  run_def initialState_def emptyStorage_def addRep_def addDeal_def removeRep_def saveData_def
  setItem_def alert_def trim_def isWhiteSpace_def toLowerCase_def toLowerChar_def
  dealAmount_def numTruthy_def parseFloat_def parseUnsigned_def parseExponent_def scale10_def
  trimStart_def isDigit_def digitsVal_def digitVal_def negate_def Let_def

lemmas filter_simps =
  getFilteredDeals_def getFilteredStats_def sumAmounts_def dateFilterChange_def
  applyDateFilterClick_def topPerformer_def dealsToday_def updateAnalytics_def utcHost_def
  msPerDay_def

section \<open>The counters of a representative\<close>





section \<open>The recorded amount\<close>

text \<open>
  Claim C2, as amended. For a representative that \<^verbatim>\<open>find\<close> returns and every string \<open>s\<close>
  the prompt returns, \<^verbatim>\<open>addDeal\<close> appends one deal record to that representative, counts
  it and adds its amount to the revenue: the deal is never rejected on a bad number, and
  only a cancelled prompt records nothing. The recorded amount is \<^verbatim>\<open>parseFloat(s)\<close> when
  that is a number other than \<open>NaN\<close> and zero, and zero otherwise. So the amount is never
  \<open>NaN\<close>, it is zero when \<^verbatim>\<open>parseFloat\<close> finds no number, and it is non-negative exactly
  when \<^verbatim>\<open>parseFloat\<close> does not return a negative number: a negative input is recorded as
  it is.
\<close>

theorem recordDeal_amount:
  assumes "find (\<lambda>r. rep_id r = i) (salesReps st) = Some rep"
  shows "(\<exists>rep'. find (\<lambda>r. rep_id r = i) (salesReps (addDeal i (Some s) now st)) = Some rep'
            \<and> dealHistory rep' = dealHistory rep @
                 [\<lparr>date = now,
                   amount = (if parseFloat s = NaN \<or> parseFloat s = Fin 0 then Fin 0 else parseFloat s)\<rparr>]
            \<and> deals rep' = deals rep + 1
            \<and> revenue rep' = js_add (revenue rep)
                 (if parseFloat s = NaN \<or> parseFloat s = Fin 0 then Fin 0 else parseFloat s))
         \<and> addDeal i None now st = st
         \<and> dealAmount s = (if parseFloat s = NaN \<or> parseFloat s = Fin 0 then Fin 0 else parseFloat s)
         \<and> dealAmount s \<noteq> NaN
         \<and> (parseFloat s = NaN \<longrightarrow> dealAmount s = Fin 0)
         \<and> (nonNegative (dealAmount s) = (parseFloat s = NaN \<or> nonNegative (parseFloat s)))"
proof -
  let ?v = "if parseFloat s = NaN \<or> parseFloat s = Fin 0 then Fin 0 else parseFloat s"
  let ?f = "\<lambda>r. r\<lparr>deals := deals r + 1, revenue := js_add (revenue r) (dealAmount s),
                    dealHistory := dealHistory r @ [\<lparr>date = now, amount = dealAmount s\<rparr>]\<rparr>"
  have amount: "dealAmount s = ?v"
    by (simp add: dealAmount_def numTruthy_def)
  have "salesReps (addDeal i (Some s) now st) = mutateFound i ?f (salesReps st)"
    using assms by (simp add: addDeal_def Let_def)
  moreover have "find (\<lambda>r. rep_id r = i) (mutateFound i ?f (salesReps st)) = Some (?f rep)"
    using assms by (intro find_mutateFound) simp_all
  ultimately have found: "find (\<lambda>r. rep_id r = i) (salesReps (addDeal i (Some s) now st)) = Some (?f rep)"
    by simp
  have "dealHistory (?f rep) = dealHistory rep @ [\<lparr>date = now, amount = ?v\<rparr>]"
    "deals (?f rep) = deals rep + 1"
    "revenue (?f rep) = js_add (revenue rep) ?v"
    using amount by simp_all
  with found have recorded:
    "\<exists>rep'. find (\<lambda>r. rep_id r = i) (salesReps (addDeal i (Some s) now st)) = Some rep'
            \<and> dealHistory rep' = dealHistory rep @ [\<lparr>date = now, amount = ?v\<rparr>]
            \<and> deals rep' = deals rep + 1
            \<and> revenue rep' = js_add (revenue rep) ?v"
    by blast
  have cancelled: "addDeal i None now st = st"
    using assms by (simp add: addDeal_def)
  have sign: "dealAmount s \<noteq> NaN" "parseFloat s = NaN \<longrightarrow> dealAmount s = Fin 0"
    "nonNegative (dealAmount s) = (parseFloat s = NaN \<or> nonNegative (parseFloat s))"
    by (auto simp: dealAmount_def numTruthy_def nonNegative_def split: jsnum.splits)
  from recorded cancelled amount sign show ?thesis
    by (intro conjI)
qed

text \<open>
  The input \<^verbatim>\<open>abc\<close> is no number: a deal of amount zero is recorded. The input
  \<^verbatim>\<open>12.5\<close> is recorded with the amount 12.5.
\<close>

theorem recordDeal_amount_witness:
  "find (\<lambda>r. rep_id r = 1) (salesReps (run (initialState emptyStorage) [AddRep 1 ''Alice'']))
     = Some (newRep 1 ''Alice'')
   \<and> parseFloat ''abc'' = NaN
   \<and> dealAmount ''abc'' = Fin 0
   \<and> (\<exists>rep'. find (\<lambda>r. rep_id r = 1)
         (salesReps (addDeal 1 (Some ''abc'') 2000 (run (initialState emptyStorage) [AddRep 1 ''Alice''])))
           = Some rep'
         \<and> dealHistory rep' = [\<lparr>date = 2000, amount = Fin 0\<rparr>])
   \<and> parseFloat ''12.5'' = Fin (25 / 2)
   \<and> (\<exists>rep'. find (\<lambda>r. rep_id r = 1)
         (salesReps (addDeal 1 (Some ''12.5'') 2000 (run (initialState emptyStorage) [AddRep 1 ''Alice''])))
           = Some rep'
         \<and> dealHistory rep' = [\<lparr>date = 2000, amount = Fin (25 / 2)\<rparr>]
         \<and> deals rep' = 1
         \<and> revenue rep' = Fin (25 / 2))"
proof -
  let ?s = "run (initialState emptyStorage) [AddRep 1 ''Alice'']"
  have found: "find (\<lambda>r. rep_id r = 1) (salesReps ?s) = Some (newRep 1 ''Alice'')"
    by (simp add: run_simps newRep_def)
  have nan: "parseFloat ''abc'' = NaN"
    by (rule parseFloat_examples)
  have num: "parseFloat ''12.5'' = Fin (25 / 2)"
    by (rule parseFloat_examples)
  from recordDeal_amount [OF found, of "''abc''" 2000]
  have zero: "dealAmount ''abc'' = Fin 0"
    "\<exists>rep'. find (\<lambda>r. rep_id r = 1) (salesReps (addDeal 1 (Some ''abc'') 2000 ?s)) = Some rep'
         \<and> dealHistory rep' = [\<lparr>date = 2000, amount = Fin 0\<rparr>]"
    by (auto simp: nan newRep_def)
  from recordDeal_amount [OF found, of "''12.5''" 2000]
  have given: "\<exists>rep'. find (\<lambda>r. rep_id r = 1) (salesReps (addDeal 1 (Some ''12.5'') 2000 ?s)) = Some rep'
         \<and> dealHistory rep' = [\<lparr>date = 2000, amount = Fin (25 / 2)\<rparr>]
         \<and> deals rep' = 1
         \<and> revenue rep' = Fin (25 / 2)"
    by (auto simp: num newRep_def)
  from found nan num zero given show ?thesis
    by (intro conjI)
qed

text \<open>
  The claim as stated fails: the input \<^verbatim>\<open>-5\<close> is recorded with the amount \<open>-5\<close>, which is
  not non-negative, and the revenue follows it.
\<close>

theorem recordDeal_negative_amount:
  "salesReps (run (initialState emptyStorage) [AddRep 1 ''Alice'', AddDeal 1 (Some ''-5'') 2000])
     = [\<lparr>rep_id = 1, name = ''Alice'', deals = 1, revenue = Fin (- 5),
         dealHistory = [\<lparr>date = 2000, amount = Fin (- 5)\<rparr>]\<rparr>]
   \<and> \<not> nonNegative (Fin (- 5))"
  by (simp add: run_simps nonNegative_def)

section \<open>A custom filter without its dates\<close>

text \<open>
  Claim C3, as amended. Selecting \<^verbatim>\<open>custom\<close> stores it as the active selector at once.
  Applying a range with the start or the end date missing stores the two values, shows
  the warning and leaves the representatives as they are; the selector stays
  \<^verbatim>\<open>custom\<close>, and filtering then returns the full history of every representative, as
  \<^verbatim>\<open>all\<close> does.
\<close>

theorem custom_without_dates:
  "startValue = [] \<or> endValue = [] \<Longrightarrow>
   currentFilter (applyDateFilterClick startValue endValue (dateFilterChange ''custom'' st)) = ''custom''
   \<and> customStartDate (applyDateFilterClick startValue endValue (dateFilterChange ''custom'' st))
        = Some startValue
   \<and> customEndDate (applyDateFilterClick startValue endValue (dateFilterChange ''custom'' st))
        = Some endValue
   \<and> salesReps (applyDateFilterClick startValue endValue (dateFilterChange ''custom'' st))
        = salesReps st
   \<and> alerts (applyDateFilterClick startValue endValue (dateFilterChange ''custom'' st))
        = alerts st @ [''Please select both start and end dates'']
   \<and> getFilteredDeals h now
        (applyDateFilterClick startValue endValue (dateFilterChange ''custom'' st)) rep
        = dealHistory rep"
  by (auto simp: applyDateFilterClick_def dateFilterChange_def alert_def getFilteredDeals_def Let_def)

text \<open>
  On a fresh page, \<^verbatim>\<open>custom\<close> applied with an end date and no start date: the selector is
  \<^verbatim>\<open>custom\<close>, the warning is shown, and a history of one deal is returned whole.
\<close>

theorem custom_without_dates_witness:
  "currentFilter (applyDateFilterClick [] ''2001-09-09''
      (dateFilterChange ''custom'' (initialState emptyStorage))) = ''custom''
   \<and> alerts (applyDateFilterClick [] ''2001-09-09''
      (dateFilterChange ''custom'' (initialState emptyStorage)))
       = [''Please select both start and end dates'']
   \<and> getFilteredDeals utcHost 1000000000000
        (applyDateFilterClick [] ''2001-09-09'' (dateFilterChange ''custom'' (initialState emptyStorage)))
        \<lparr>rep_id = 1, name = ''Alice'', deals = 1, revenue = Fin 100,
          dealHistory = [\<lparr>date = 0, amount = Fin 100\<rparr>]\<rparr>
       = [\<lparr>date = 0, amount = Fin 100\<rparr>]"
  using custom_without_dates [of "[]" "''2001-09-09''" "initialState emptyStorage" utcHost
      1000000000000
      "\<lparr>rep_id = 1, name = ''Alice'', deals = 1, revenue = Fin 100,
        dealHistory = [\<lparr>date = 0, amount = Fin 100\<rparr>]\<rparr>"]
  by (simp add: initialState_def)

text \<open>
  The claim as stated fails: with \<^verbatim>\<open>week\<close> active, the window holds only the second of
  two deals. After \<^verbatim>\<open>custom\<close> is selected and applied with no start date, the selector is
  \<^verbatim>\<open>custom\<close>, not the prior one, and filtering returns both deals, the full history.
\<close>

theorem custom_without_dates_counterexample:
  "getFilteredDeals utcHost 1000000000000
     (run (initialState emptyStorage)
        [AddRep 1 ''Alice'', AddDeal 1 (Some ''100'') 0, AddDeal 1 (Some ''200'') 999999999000,
         DateFilterChange ''week''])
     \<lparr>rep_id = 1, name = ''Alice'', deals = 2, revenue = Fin 300,
       dealHistory = [\<lparr>date = 0, amount = Fin 100\<rparr>, \<lparr>date = 999999999000, amount = Fin 200\<rparr>]\<rparr>
     = [\<lparr>date = 999999999000, amount = Fin 200\<rparr>]
   \<and> currentFilter
        (run (initialState emptyStorage)
          [AddRep 1 ''Alice'', AddDeal 1 (Some ''100'') 0, AddDeal 1 (Some ''200'') 999999999000,
           DateFilterChange ''week'', DateFilterChange ''custom'',
           ApplyDateFilterClick [] ''2001-09-09'']) = ''custom''
   \<and> getFilteredDeals utcHost 1000000000000
        (run (initialState emptyStorage)
          [AddRep 1 ''Alice'', AddDeal 1 (Some ''100'') 0, AddDeal 1 (Some ''200'') 999999999000,
           DateFilterChange ''week'', DateFilterChange ''custom'',
           ApplyDateFilterClick [] ''2001-09-09''])
        \<lparr>rep_id = 1, name = ''Alice'', deals = 2, revenue = Fin 300,
          dealHistory = [\<lparr>date = 0, amount = Fin 100\<rparr>, \<lparr>date = 999999999000, amount = Fin 200\<rparr>]\<rparr>
       = [\<lparr>date = 0, amount = Fin 100\<rparr>, \<lparr>date = 999999999000, amount = Fin 200\<rparr>]
   \<and> currentFilter
        (run (initialState emptyStorage)
          [AddRep 1 ''Alice'', AddDeal 1 (Some ''100'') 0, AddDeal 1 (Some ''200'') 999999999000,
           DateFilterChange ''week'', DateFilterChange ''custom'',
           ApplyDateFilterClick [] ''2001-09-09''])
       \<noteq> currentFilter
        (run (initialState emptyStorage)
          [AddRep 1 ''Alice'', AddDeal 1 (Some ''100'') 0, AddDeal 1 (Some ''200'') 999999999000,
           DateFilterChange ''week''])"
  by (simp add: run_simps filter_simps)

section \<open>The window of the last seven days\<close>

text \<open>
  Claim C4, as amended. With the selector \<^verbatim>\<open>week\<close>, filtering returns exactly the deals
  whose time is at or after \<open>now\<close> minus 7 times 24 hours, in the order of the history;
  there is no upper bound. For a history with no deal later than \<open>now\<close> these are the
  deals in the closed window from that start through \<open>now\<close>.
\<close>

theorem week_filter:
  "currentFilter st = ''week'' \<Longrightarrow>
   getFilteredDeals h now st rep
     = filter (\<lambda>deal. now - 7 * 24 * 60 * 60 * 1000 \<le> date deal) (dealHistory rep)
   \<and> ((\<forall>deal \<in> set (dealHistory rep). date deal \<le> now) \<longrightarrow>
        getFilteredDeals h now st rep
          = filter (\<lambda>deal. now - 7 * 24 * 60 * 60 * 1000 \<le> date deal \<and> date deal \<le> now)
              (dealHistory rep))"
  by (auto simp: getFilteredDeals_def intro: filter_cong)

text \<open>
  Deals of 100, 200 and 300 made eight days ago, two days ago and now: the window holds
  the last two, with the revenue 500.
\<close>

theorem week_filter_witness:
  "currentFilter (dateFilterChange ''week'' (initialState emptyStorage)) = ''week''
   \<and> getFilteredDeals utcHost 1000000000000
        (dateFilterChange ''week'' (initialState emptyStorage))
        \<lparr>rep_id = 1, name = ''Alice'', deals = 3, revenue = Fin 600,
          dealHistory = [\<lparr>date = 1000000000000 - 8 * 86400000, amount = Fin 100\<rparr>,
                         \<lparr>date = 1000000000000 - 2 * 86400000, amount = Fin 200\<rparr>,
                         \<lparr>date = 1000000000000, amount = Fin 300\<rparr>]\<rparr>
       = [\<lparr>date = 1000000000000 - 2 * 86400000, amount = Fin 200\<rparr>,
          \<lparr>date = 1000000000000, amount = Fin 300\<rparr>]
   \<and> getFilteredStats utcHost 1000000000000
        (dateFilterChange ''week'' (initialState emptyStorage))
        \<lparr>rep_id = 1, name = ''Alice'', deals = 3, revenue = Fin 600,
          dealHistory = [\<lparr>date = 1000000000000 - 8 * 86400000, amount = Fin 100\<rparr>,
                         \<lparr>date = 1000000000000 - 2 * 86400000, amount = Fin 200\<rparr>,
                         \<lparr>date = 1000000000000, amount = Fin 300\<rparr>]\<rparr>
       = \<lparr>stats.deals = 2, stats.revenue = Fin 500\<rparr>"
proof -
  let ?st = "dateFilterChange ''week'' (initialState emptyStorage)"
  let ?rep = "\<lparr>rep_id = 1, name = ''Alice'', deals = 3, revenue = Fin 600,
          dealHistory = [\<lparr>date = 1000000000000 - 8 * 86400000, amount = Fin 100\<rparr>,
                         \<lparr>date = 1000000000000 - 2 * 86400000, amount = Fin 200\<rparr>,
                         \<lparr>date = 1000000000000, amount = Fin 300\<rparr>]\<rparr>"
  have week: "currentFilter ?st = ''week''"
    by (simp add: dateFilterChange_def)
  from week_filter [OF week, of utcHost 1000000000000 ?rep]
  have deals: "getFilteredDeals utcHost 1000000000000 ?st ?rep
       = [\<lparr>date = 1000000000000 - 2 * 86400000, amount = Fin 200\<rparr>,
          \<lparr>date = 1000000000000, amount = Fin 300\<rparr>]"
    by simp
  show ?thesis
    using week deals by (simp add: getFilteredStats_def sumAmounts_def)
qed

text \<open>
  The claim as stated fails: a deal one millisecond later than \<open>now\<close> is returned, though
  it lies outside the closed window that ends at \<open>now\<close>.
\<close>

theorem week_filter_counterexample:
  "getFilteredDeals utcHost 1000000000000
     (dateFilterChange ''week'' (initialState emptyStorage))
     \<lparr>rep_id = 1, name = ''Alice'', deals = 2, revenue = Fin 300,
       dealHistory = [\<lparr>date = 1000000000000, amount = Fin 100\<rparr>,
                      \<lparr>date = 1000000000001, amount = Fin 200\<rparr>]\<rparr>
     = [\<lparr>date = 1000000000000, amount = Fin 100\<rparr>, \<lparr>date = 1000000000001, amount = Fin 200\<rparr>]
   \<and> filter (\<lambda>deal. 1000000000000 - 7 * 24 * 60 * 60 * 1000 \<le> date deal \<and> date deal \<le> 1000000000000)
        [\<lparr>date = 1000000000000, amount = Fin 100\<rparr>, \<lparr>date = 1000000000001, amount = Fin 200\<rparr>]
     = [\<lparr>date = 1000000000000, amount = Fin 100\<rparr>]
   \<and> getFilteredDeals utcHost 1000000000000
        (dateFilterChange ''week'' (initialState emptyStorage))
        \<lparr>rep_id = 1, name = ''Alice'', deals = 2, revenue = Fin 300,
          dealHistory = [\<lparr>date = 1000000000000, amount = Fin 100\<rparr>,
                         \<lparr>date = 1000000000001, amount = Fin 200\<rparr>]\<rparr>
     \<noteq> filter (\<lambda>deal. 1000000000000 - 7 * 24 * 60 * 60 * 1000 \<le> date deal \<and> date deal \<le> 1000000000000)
        [\<lparr>date = 1000000000000, amount = Fin 100\<rparr>, \<lparr>date = 1000000000001, amount = Fin 200\<rparr>]"
  by (simp add: filter_simps initialState_def)

section \<open>Adding a representative\<close>

text \<open>
  Claim C5. \<^verbatim>\<open>addRep\<close> leaves the list of representatives unchanged if and only if the
  trimmed name is empty or a representative has that name up to the case of letters;
  then the state is unchanged but for the warning it shows. Otherwise the list grows at
  its end by exactly one representative with the trimmed name, no deals, no revenue and
  an empty history.
\<close>

theorem addRepresentative_outcome:
  "((salesReps (addRep now input st) = salesReps st)
      = (trim input = [] \<or> nameTaken (trim input) (salesReps st)))
   \<and> ((trim input = [] \<or> nameTaken (trim input) (salesReps st)) \<longrightarrow>
        (\<exists>msg. addRep now input st = alert msg st))
   \<and> (\<not> (trim input = [] \<or> nameTaken (trim input) (salesReps st)) \<longrightarrow>
        salesReps (addRep now input st) = salesReps st @ [newRep now (trim input)])"
  by (auto simp: addRep_def Let_def nameTaken_def newRep_def find_None_iff)

text \<open>After \<^verbatim>\<open>Alice\<close>, the name \<^verbatim>\<open>alice\<close> is refused and the name \<^verbatim>\<open>Bob\<close> is added.\<close>

theorem addRepresentative_outcome_witness:
  "trim ''alice'' \<noteq> []
   \<and> nameTaken (trim ''alice'') (salesReps (run (initialState emptyStorage) [AddRep 1 '' Alice '']))
   \<and> salesReps (addRep 2 ''alice'' (run (initialState emptyStorage) [AddRep 1 '' Alice '']))
       = salesReps (run (initialState emptyStorage) [AddRep 1 '' Alice ''])
   \<and> \<not> nameTaken (trim ''Bob'') (salesReps (run (initialState emptyStorage) [AddRep 1 '' Alice '']))
   \<and> salesReps (addRep 2 ''Bob'' (run (initialState emptyStorage) [AddRep 1 '' Alice '']))
       = [newRep 1 ''Alice'', newRep 2 ''Bob'']"
proof -
  let ?s = "run (initialState emptyStorage) [AddRep 1 '' Alice '']"
  have reps: "salesReps ?s = [newRep 1 ''Alice'']"
    by (simp add: run_simps newRep_def)
  have a: "trim ''alice'' = ''alice''" "trim ''Bob'' = ''Bob''"
    by (simp_all add: trim_def isWhiteSpace_def)
  have taken: "nameTaken ''alice'' [newRep 1 ''Alice'']" "\<not> nameTaken ''Bob'' [newRep 1 ''Alice'']"
    by (simp_all add: nameTaken_def newRep_def toLowerCase_def toLowerChar_def)
  from addRepresentative_outcome [of 2 "''alice''" ?s] addRepresentative_outcome [of 2 "''Bob''" ?s]
  show ?thesis
    by (simp add: reps a taken)
qed

section \<open>Loading and migrating\<close>

lemma map_of_setProperty:
  "map_of (setProperty k v ps) k' = (if k' = k then Some v else map_of ps k')"
  by (induction ps) auto

lemma mapE_all_Inr:
  "(\<And>x. x \<in> set xs \<Longrightarrow> f x = Inr (g x)) \<Longrightarrow> mapE f xs = Inr (map g xs)"
  by (induction xs) auto

lemma mapE_length: "mapE f xs = Inr ys \<Longrightarrow> length ys = length xs"
  by (induction xs arbitrary: ys) (auto split: sum.splits)

lemma mapE_nth: "mapE f xs = Inr ys \<Longrightarrow> k < length xs \<Longrightarrow> f (xs ! k) = Inr (ys ! k)"
proof (induction xs arbitrary: ys k)
  case Nil
  then show ?case by simp
next
  case (Cons x xs)
  then show ?case by (cases k) (auto split: sum.splits)
qed

lemma migrateRep_total: "v \<noteq> JNull \<Longrightarrow> \<exists>w. migrateRep v = Inr w"
  by (cases v) (auto simp: migrateRep_def readDealHistory_def)

lemma mapE_migrateRep: "JNull \<notin> set xs \<Longrightarrow> \<exists>ys. mapE migrateRep xs = Inr ys"
proof (induction xs)
  case Nil
  then show ?case by simp
next
  case (Cons x xs)
  then obtain w ys where "migrateRep x = Inr w" "mapE migrateRep xs = Inr ys"
    using migrateRep_total [of x] by auto
  then show ?case by simp
qed

lemma load_entry:
  assumes "\<not> blocked ls" "items ls ''salesReps'' = Some (JsonText (JArr entries))"
    "JNull \<notin> set entries"
  shows "length (loadSalesReps ls) = length entries"
    and "k < length entries \<Longrightarrow> migrateRep (entries ! k) = Inr (loadSalesReps ls ! k)"
proof -
  from assms(3) obtain ys where ys: "mapE migrateRep entries = Inr ys"
    using mapE_migrateRep by blast
  have load: "loadSalesReps ls = ys"
    using assms(1,2) ys by (simp add: loadSalesReps_def getItem_def JSON_parse_def)
  show "length (loadSalesReps ls) = length entries"
    using load mapE_length [OF ys] by simp
  show "k < length entries \<Longrightarrow> migrateRep (entries ! k) = Inr (loadSalesReps ls ! k)"
    using load mapE_nth [OF ys] by simp
qed

text \<open>
  Claim C6, as amended. The storage can be read and holds an array with no \<^verbatim>\<open>null\<close> entry;
  the load returns an array of the same length, and for an entry that is an object:
  \<^item> when it has no \<^verbatim>\<open>dealHistory\<close> property, or one with a falsy value (\<^verbatim>\<open>null\<close>,
    \<^verbatim>\<open>false\<close>, zero, the empty string), the loaded entry has \<^verbatim>\<open>revenue\<close> zero and an empty
    \<^verbatim>\<open>dealHistory\<close>, and every other property, \<^verbatim>\<open>deals\<close> among them, as stored;
  \<^item> when its \<^verbatim>\<open>dealHistory\<close> is truthy, as every array is, the empty one too, the loaded
    entry is the stored one.
\<close>

theorem legacy_migration:
  assumes "\<not> blocked ls" and "items ls ''salesReps'' = Some (JsonText (JArr entries))"
    and "JNull \<notin> set entries" and "k < length entries" and "entries ! k = JObj kvs"
  shows "length (loadSalesReps ls) = length entries
    \<and> ((map_of kvs ''dealHistory'' = None \<or> (\<exists>v. map_of kvs ''dealHistory'' = Some v \<and> \<not> truthy v)) \<longrightarrow>
         (\<exists>kvs'. loadSalesReps ls ! k = JObj kvs'
            \<and> map_of kvs' ''revenue'' = Some (JNum (Fin 0))
            \<and> map_of kvs' ''dealHistory'' = Some (JArr [])
            \<and> (\<forall>p. p \<noteq> ''revenue'' \<and> p \<noteq> ''dealHistory'' \<longrightarrow> map_of kvs' p = map_of kvs p)))
    \<and> ((\<exists>v. map_of kvs ''dealHistory'' = Some v \<and> truthy v) \<longrightarrow> loadSalesReps ls ! k = JObj kvs)
    \<and> ((\<exists>xs. map_of kvs ''dealHistory'' = Some (JArr xs)) \<longrightarrow> loadSalesReps ls ! k = JObj kvs)"
proof -
  have entry: "migrateRep (JObj kvs) = Inr (loadSalesReps ls ! k)"
    using load_entry(2) [OF assms(1,2,3,4)] assms(5) by simp
  have len: "length (loadSalesReps ls) = length entries"
    using load_entry(1) [OF assms(1,2,3)] .
  have migrated: "map_of kvs ''dealHistory'' = None \<or> (\<exists>v. map_of kvs ''dealHistory'' = Some v \<and> \<not> truthy v)
      \<Longrightarrow> migrateRep (JObj kvs)
            = Inr (JObj (setProperty ''dealHistory'' (JArr []) (setProperty ''revenue'' (JNum (Fin 0)) kvs)))"
    by (auto simp: migrateRep_def readDealHistory_def ownProperties_def)
  have kept: "\<exists>v. map_of kvs ''dealHistory'' = Some v \<and> truthy v \<Longrightarrow> migrateRep (JObj kvs) = Inr (JObj kvs)"
    by (auto simp: migrateRep_def readDealHistory_def)
  show ?thesis
  proof (intro conjI impI)
    show "length (loadSalesReps ls) = length entries" by (rule len)
  next
    assume "map_of kvs ''dealHistory'' = None \<or> (\<exists>v. map_of kvs ''dealHistory'' = Some v \<and> \<not> truthy v)"
    from migrated [OF this] entry
    have "loadSalesReps ls ! k
            = JObj (setProperty ''dealHistory'' (JArr []) (setProperty ''revenue'' (JNum (Fin 0)) kvs))"
      by simp
    then show "\<exists>kvs'. loadSalesReps ls ! k = JObj kvs'
            \<and> map_of kvs' ''revenue'' = Some (JNum (Fin 0))
            \<and> map_of kvs' ''dealHistory'' = Some (JArr [])
            \<and> (\<forall>p. p \<noteq> ''revenue'' \<and> p \<noteq> ''dealHistory'' \<longrightarrow> map_of kvs' p = map_of kvs p)"
      by (simp add: map_of_setProperty)
  next
    assume "\<exists>v. map_of kvs ''dealHistory'' = Some v \<and> truthy v"
    from kept [OF this] entry show "loadSalesReps ls ! k = JObj kvs" by simp
  next
    assume "\<exists>xs. map_of kvs ''dealHistory'' = Some (JArr xs)"
    then have "\<exists>v. map_of kvs ''dealHistory'' = Some v \<and> truthy v" by auto
    from kept [OF this] entry show "loadSalesReps ls ! k = JObj kvs" by simp
  qed
qed

text \<open>
  A legacy entry with three deals counted and no history is migrated and keeps its
  count; an entry with an empty history is returned as it is.
\<close>

theorem legacy_migration_witness:
  "loadSalesReps (emptyStorage\<lparr>items := [''salesReps'' \<mapsto>
      JsonText (JArr [JObj [(''id'', JNum (Fin 1)), (''name'', JStr ''Bob''), (''deals'', JNum (Fin 3))],
                      JObj [(''id'', JNum (Fin 2)), (''name'', JStr ''Eve''), (''deals'', JNum (Fin 0)),
                            (''revenue'', JNum (Fin 0)), (''dealHistory'', JArr [])]])]\<rparr>)
     = [JObj [(''id'', JNum (Fin 1)), (''name'', JStr ''Bob''), (''deals'', JNum (Fin 3)),
              (''revenue'', JNum (Fin 0)), (''dealHistory'', JArr [])],
        JObj [(''id'', JNum (Fin 2)), (''name'', JStr ''Eve''), (''deals'', JNum (Fin 0)),
              (''revenue'', JNum (Fin 0)), (''dealHistory'', JArr [])]]"
proof -
  let ?bob = "[(''id'', JNum (Fin 1)), (''name'', JStr ''Bob''), (''deals'', JNum (Fin 3))]"
  let ?eve = "[(''id'', JNum (Fin 2)), (''name'', JStr ''Eve''), (''deals'', JNum (Fin 0)),
               (''revenue'', JNum (Fin 0)), (''dealHistory'', JArr [])]"
  let ?entries = "[JObj ?bob, JObj ?eve]"
  let ?ls = "emptyStorage\<lparr>items := [''salesReps'' \<mapsto> JsonText (JArr ?entries)]\<rparr>"
  have pre: "\<not> blocked ?ls" "items ?ls ''salesReps'' = Some (JsonText (JArr ?entries))"
    "JNull \<notin> set ?entries"
    by (simp_all add: emptyStorage_def)
  have "loadSalesReps ?ls ! 1 = JObj ?eve"
    using legacy_migration [OF pre, of 1 ?eve] by simp
  moreover have "length (loadSalesReps ?ls) = 2"
    using legacy_migration [OF pre, of 0 ?bob] by simp
  moreover have "loadSalesReps ?ls ! 0 = JObj (?bob @ [(''revenue'', JNum (Fin 0)), (''dealHistory'', JArr [])])"
    by (simp add: loadSalesReps_def getItem_def emptyStorage_def JSON_parse_def migrateRep_def
          readDealHistory_def ownProperties_def)
  ultimately show ?thesis
    by (simp add: list_eq_iff_nth_eq All_less_Suc nth_Cons' numeral_2_eq_2)
qed

text \<open>
  The claim as stated fails: an entry that has a \<^verbatim>\<open>dealHistory\<close> property, holding
  \<^verbatim>\<open>null\<close>, is not returned unchanged; its revenue of 500 is set to zero.
\<close>

theorem legacy_migration_counterexample:
  "loadSalesReps (emptyStorage\<lparr>items := [''salesReps'' \<mapsto>
      JsonText (JArr [JObj [(''id'', JNum (Fin 1)), (''name'', JStr ''Bob''), (''deals'', JNum (Fin 3)),
                            (''revenue'', JNum (Fin 500)), (''dealHistory'', JNull)]])]\<rparr>)
     = [JObj [(''id'', JNum (Fin 1)), (''name'', JStr ''Bob''), (''deals'', JNum (Fin 3)),
              (''revenue'', JNum (Fin 0)), (''dealHistory'', JArr [])]]
   \<and> loadSalesReps (emptyStorage\<lparr>items := [''salesReps'' \<mapsto>
      JsonText (JArr [JObj [(''id'', JNum (Fin 1)), (''name'', JStr ''Bob''), (''deals'', JNum (Fin 3)),
                            (''revenue'', JNum (Fin 500)), (''dealHistory'', JNull)]])]\<rparr>)
     \<noteq> [JObj [(''id'', JNum (Fin 1)), (''name'', JStr ''Bob''), (''deals'', JNum (Fin 3)),
               (''revenue'', JNum (Fin 500)), (''dealHistory'', JNull)]]"
  by (simp add: loadSalesReps_def getItem_def emptyStorage_def JSON_parse_def migrateRep_def
        readDealHistory_def ownProperties_def)

section \<open>Saving and loading\<close>

lemma jsonValue_dealJs: "isFinite (amount d) \<Longrightarrow> jsonValue (dealJs d) = dealJs d"
  by (simp add: dealJs_def)

lemma jsonValue_repJs: "finiteRep r \<Longrightarrow> jsonValue (repJs r) = repJs r"
  by (simp add: repJs_def finiteRep_def isFinite_def list_all_iff jsonValue_dealJs cong: map_cong)

lemma migrateRep_repJs: "migrateRep (repJs r) = Inr (repJs r)"
  by (simp add: migrateRep_def readDealHistory_def repJs_def)

text \<open>
  Claim C7, as amended. When the storage accepts the write and the revenue and every deal
  amount of every representative are finite, loading what \<^verbatim>\<open>saveData\<close> has stored returns
  the list of representatives, value for value.
\<close>

theorem save_load_roundtrip:
  assumes "\<not> blocked (localStorage st)" and "\<not> full (localStorage st)"
    and "\<forall>r \<in> set (salesReps st). finiteRep r"
  shows "loadSalesReps (localStorage (saveData st)) = map repJs (salesReps st)"
proof -
  have json: "map (jsonValue \<circ> repJs) (salesReps st) = map repJs (salesReps st)"
    using assms(3) by (simp add: jsonValue_repJs)
  have stored: "localStorage (saveData st)
      = (localStorage st)\<lparr>items := (items (localStorage st))
           (''salesReps'' \<mapsto> JsonText (JArr (map repJs (salesReps st))))\<rparr>"
    using assms(1,2) by (simp add: saveData_def setItem_def JSON_stringify_def json)
  have "mapE migrateRep (map repJs (salesReps st)) = Inr (map id (map repJs (salesReps st)))"
    by (rule mapE_all_Inr) (auto simp: migrateRep_repJs)
  then show ?thesis
    using assms(1) by (simp add: stored loadSalesReps_def getItem_def JSON_parse_def)
qed

text \<open>One representative with one deal of 100 comes back as it was saved.\<close>

theorem save_load_roundtrip_witness:
  "finiteRep \<lparr>rep_id = 1, name = ''Alice'', deals = 1, revenue = Fin 100,
      dealHistory = [\<lparr>date = 1000, amount = Fin 100\<rparr>]\<rparr>
   \<and> loadSalesReps (localStorage (saveData ((initialState emptyStorage)\<lparr>salesReps :=
        [\<lparr>rep_id = 1, name = ''Alice'', deals = 1, revenue = Fin 100,
          dealHistory = [\<lparr>date = 1000, amount = Fin 100\<rparr>]\<rparr>]\<rparr>)))
     = [JObj [(''id'', JNum (Fin 1)), (''name'', JStr ''Alice''), (''deals'', JNum (Fin 1)),
              (''revenue'', JNum (Fin 100)),
              (''dealHistory'', JArr [JObj [(''date'', JStr ''1970-01-01T00:00:01.000Z''),
                                            (''amount'', JNum (Fin 100))]])]]"
proof -
  let ?r = "\<lparr>rep_id = 1, name = ''Alice'', deals = 1, revenue = Fin 100,
      dealHistory = [\<lparr>date = 1000, amount = Fin 100\<rparr>]\<rparr>"
  let ?s = "(initialState emptyStorage)\<lparr>salesReps := [?r]\<rparr>"
  have iso: "toISOString 1000 = ''1970-01-01T00:00:01.000Z''"
    unfolding toISOString_def civilFromDays_def msPerDay_def yearString_def padNat_def Let_def
    by (simp add: upt_rec)
  have fin: "finiteRep ?r"
    by (simp add: finiteRep_def isFinite_def)
  have pre: "\<not> blocked (localStorage ?s)" "\<not> full (localStorage ?s)"
    "\<forall>r \<in> set (salesReps ?s). finiteRep r"
    using fin by (simp_all add: initialState_def emptyStorage_def)
  from save_load_roundtrip [OF pre] fin show ?thesis
    by (simp add: initialState_def repJs_def dealJs_def iso)
qed

text \<open>
  The claim as stated fails: after a deal with the input \<^verbatim>\<open>Infinity\<close> the revenue and the
  amount are infinite, JSON writes them as \<^verbatim>\<open>null\<close>, and the loaded list differs from the
  list in memory.
\<close>

theorem save_load_roundtrip_counterexample:
  "map repJs (salesReps (run (initialState emptyStorage)
      [AddRep 1 ''Alice'', AddDeal 1 (Some ''Infinity'') 1000]))
     = [JObj [(''id'', JNum (Fin 1)), (''name'', JStr ''Alice''), (''deals'', JNum (Fin 1)),
              (''revenue'', JNum PosInf),
              (''dealHistory'', JArr [JObj [(''date'', JStr ''1970-01-01T00:00:01.000Z''),
                                            (''amount'', JNum PosInf)]])]]
   \<and> loadSalesReps (localStorage (saveData (run (initialState emptyStorage)
      [AddRep 1 ''Alice'', AddDeal 1 (Some ''Infinity'') 1000])))
     = [JObj [(''id'', JNum (Fin 1)), (''name'', JStr ''Alice''), (''deals'', JNum (Fin 1)),
              (''revenue'', JNull),
              (''dealHistory'', JArr [JObj [(''date'', JStr ''1970-01-01T00:00:01.000Z''),
                                            (''amount'', JNull)]])]]
   \<and> loadSalesReps (localStorage (saveData (run (initialState emptyStorage)
      [AddRep 1 ''Alice'', AddDeal 1 (Some ''Infinity'') 1000])))
     \<noteq> map repJs (salesReps (run (initialState emptyStorage)
      [AddRep 1 ''Alice'', AddDeal 1 (Some ''Infinity'') 1000]))"
proof -
  let ?s = "run (initialState emptyStorage) [AddRep 1 ''Alice'', AddDeal 1 (Some ''Infinity'') 1000]"
  have iso: "toISOString 1000 = ''1970-01-01T00:00:01.000Z''"
    unfolding toISOString_def civilFromDays_def msPerDay_def yearString_def padNat_def Let_def
    by (simp add: upt_rec)
  have reps: "salesReps ?s = [\<lparr>rep_id = 1, name = ''Alice'', deals = 1, revenue = PosInf,
      dealHistory = [\<lparr>date = 1000, amount = PosInf\<rparr>]\<rparr>]"
    by (simp add: run_simps)
  have ls: "\<not> blocked (localStorage ?s)" "\<not> full (localStorage ?s)"
    by (simp_all add: run_simps)
  show ?thesis
    by (simp add: reps ls iso saveData_def setItem_def JSON_stringify_def repJs_def dealJs_def
          isFinite_def loadSalesReps_def getItem_def JSON_parse_def migrateRep_def
          readDealHistory_def)
qed

section \<open>The top performer\<close>

lemma js_gt_irrefl [simp]: "\<not> js_gt a a"
  by (cases a) auto

lemma js_gt_trans_le: "js_gt a b \<Longrightarrow> \<not> js_gt c b \<Longrightarrow> c \<noteq> NaN \<Longrightarrow> js_gt a c"
  by (cases a; cases b; cases c) auto

lemma js_ge_iff: "a \<noteq> NaN \<Longrightarrow> b \<noteq> NaN \<Longrightarrow> js_ge a b = (\<not> js_gt b a)"
  by (cases a; cases b) (auto simp: js_ge_def)

lemma reduce_first_max:
  assumes "\<forall>x \<in> set (r # rs). f x \<noteq> NaN"
  shows "\<exists>k < length (r # rs).
           foldl (\<lambda>top rep. if js_gt (f rep) (f top) then rep else top) r rs = (r # rs) ! k
           \<and> (\<forall>j < length (r # rs). \<not> js_gt (f ((r # rs) ! j)) (f ((r # rs) ! k)))
           \<and> (\<forall>j < k. js_gt (f ((r # rs) ! k)) (f ((r # rs) ! j)))"
  using assms
proof (induction rs rule: rev_induct)
  case Nil
  then show ?case by simp
next
  case (snoc x xs)
  let ?sel = "foldl (\<lambda>top rep. if js_gt (f rep) (f top) then rep else top) r xs"
  let ?all = "r # xs"
  from snoc obtain k where k: "k < length ?all" "?sel = ?all ! k"
    "\<forall>j < length ?all. \<not> js_gt (f (?all ! j)) (f (?all ! k))"
    "\<forall>j < k. js_gt (f (?all ! k)) (f (?all ! j))"
    by auto
  have nn: "\<And>j. j < length ?all \<Longrightarrow> f (?all ! j) \<noteq> NaN"
    using snoc.prems by (metis nth_mem set_ConsD list.set_intros(1,2) in_set_conv_decomp Un_iff set_append)
  have nx: "f x \<noteq> NaN" using snoc.prems by simp
  have ext: "\<And>j. j < length ?all \<Longrightarrow> (r # xs @ [x]) ! j = ?all ! j"
    by (metis append_Cons nth_append)
  have lastx: "(r # xs @ [x]) ! length ?all = x"
    by (metis append_Cons nth_append_length)
  show ?case
  proof (cases "js_gt (f x) (f ?sel)")
    case True
    have sel: "foldl (\<lambda>top rep. if js_gt (f rep) (f top) then rep else top) r (xs @ [x]) = x"
      using True by simp
    have below: "\<And>j. j < length ?all \<Longrightarrow> js_gt (f x) (f (?all ! j))"
      using True k nn js_gt_trans_le by metis
    show ?thesis
    proof (intro exI [of _ "length ?all"] conjI allI impI)
      show "length ?all < length (r # xs @ [x])" by simp
      show "foldl (\<lambda>top rep. if js_gt (f rep) (f top) then rep else top) r (xs @ [x])
              = (r # xs @ [x]) ! length ?all"
        using sel lastx by simp
    next
      fix j assume "j < length (r # xs @ [x])"
      then consider "j < length ?all" | "j = length ?all" by fastforce
      then show "\<not> js_gt (f ((r # xs @ [x]) ! j)) (f ((r # xs @ [x]) ! length ?all))"
      proof cases
        case 1
        then have "js_gt (f x) (f (?all ! j))" by (rule below)
        then have "\<not> js_gt (f (?all ! j)) (f x)"
          by (cases "f x"; cases "f (?all ! j)") auto
        then show ?thesis using 1 ext lastx by metis
      next
        case 2
        then show ?thesis by simp
      qed
    next
      fix j assume "j < length ?all"
      then show "js_gt (f ((r # xs @ [x]) ! length ?all)) (f ((r # xs @ [x]) ! j))"
        using below ext lastx by metis
    qed
  next
    case False
    have sel: "foldl (\<lambda>top rep. if js_gt (f rep) (f top) then rep else top) r (xs @ [x]) = ?all ! k"
      using False k by simp
    show ?thesis
    proof (intro exI [of _ k] conjI allI impI)
      show "k < length (r # xs @ [x])" using k by simp
      show "foldl (\<lambda>top rep. if js_gt (f rep) (f top) then rep else top) r (xs @ [x])
              = (r # xs @ [x]) ! k"
        using sel ext k by metis
    next
      fix j assume "j < length (r # xs @ [x])"
      then consider "j < length ?all" | "j = length ?all" by fastforce
      then show "\<not> js_gt (f ((r # xs @ [x]) ! j)) (f ((r # xs @ [x]) ! k))"
      proof cases
        case 1
        then show ?thesis using k ext by metis
      next
        case 2
        then show ?thesis using False k ext lastx by metis
      qed
    next
      fix j assume "j < k"
      then have "j < length ?all" using k by simp
      then show "js_gt (f ((r # xs @ [x]) ! k)) (f ((r # xs @ [x]) ! j))"
        using k ext \<open>j < k\<close> by metis
    qed
  qed
qed

text \<open>At a fixed time the reduction is the fold of the filtered revenues at that time.\<close>

lemma reduceTop_fixed_time:
  "reduceTop h (\<lambda>k. now) st k best rs
     = foldl (\<lambda>top rep. if js_gt (filteredRevenue h now st rep) (filteredRevenue h now st top)
                         then rep else top) best rs"
  by (induction rs arbitrary: k best) (simp_all add: filteredRevenue_def)

text \<open>
  Claim C8, as amended. With no representative the top performer is none, whatever the
  clock reads. With at least one, at a fixed current time \<open>now\<close> (every reading of the
  clock during the reduction is \<open>now\<close>) and with no filtered revenue that is \<open>NaN\<close>, the
  top performer is a representative of the list whose filtered revenue is greater than
  or equal to that of every representative and strictly greater than that of every
  representative before it: the first one with the greatest filtered revenue.
\<close>

theorem topPerformer_first_max:
  "(salesReps st = [] \<longrightarrow> topPerformer h clock st = None)
   \<and> (salesReps st \<noteq> [] \<and> (\<forall>r \<in> set (salesReps st). filteredRevenue h now st r \<noteq> NaN) \<longrightarrow>
        (\<exists>k < length (salesReps st).
           topPerformer h (\<lambda>k. now) st = Some (salesReps st ! k)
           \<and> (\<forall>r \<in> set (salesReps st).
                 js_ge (filteredRevenue h now st (salesReps st ! k)) (filteredRevenue h now st r))
           \<and> (\<forall>j < k. js_gt (filteredRevenue h now st (salesReps st ! k))
                            (filteredRevenue h now st (salesReps st ! j)))))"
proof (cases "salesReps st")
  case Nil
  then show ?thesis by (simp add: topPerformer_def)
next
  case (Cons r rs)
  show ?thesis
  proof (intro conjI impI)
    assume "salesReps st = []"
    with Cons show "topPerformer h clock st = None" by simp
  next
    assume a: "salesReps st \<noteq> [] \<and> (\<forall>r \<in> set (salesReps st). filteredRevenue h now st r \<noteq> NaN)"
    then have nn: "\<forall>x \<in> set (r # rs). filteredRevenue h now st x \<noteq> NaN"
      using Cons by simp
    from reduce_first_max [OF nn] obtain k where k: "k < length (r # rs)"
      "foldl (\<lambda>top rep. if js_gt (filteredRevenue h now st rep) (filteredRevenue h now st top)
                         then rep else top) r rs = (r # rs) ! k"
      "\<forall>j < length (r # rs). \<not> js_gt (filteredRevenue h now st ((r # rs) ! j))
                                      (filteredRevenue h now st ((r # rs) ! k))"
      "\<forall>j < k. js_gt (filteredRevenue h now st ((r # rs) ! k)) (filteredRevenue h now st ((r # rs) ! j))"
      by blast
    have top: "topPerformer h (\<lambda>k. now) st = Some ((r # rs) ! k)"
      using k(2) Cons by (simp add: topPerformer_def reduceTop_fixed_time)
    have ge: "\<forall>x \<in> set (r # rs).
                js_ge (filteredRevenue h now st ((r # rs) ! k)) (filteredRevenue h now st x)"
    proof
      fix x assume x: "x \<in> set (r # rs)"
      then obtain j where j: "j < length (r # rs)" "(r # rs) ! j = x"
        by (meson in_set_conv_nth)
      have "filteredRevenue h now st ((r # rs) ! k) \<noteq> NaN" using nn k(1) nth_mem by blast
      moreover have "filteredRevenue h now st x \<noteq> NaN" using nn x by blast
      ultimately show "js_ge (filteredRevenue h now st ((r # rs) ! k)) (filteredRevenue h now st x)"
        using k(3) j by (auto simp: js_ge_iff)
    qed
    show "\<exists>k < length (salesReps st).
           topPerformer h (\<lambda>k. now) st = Some (salesReps st ! k)
           \<and> (\<forall>r \<in> set (salesReps st).
                 js_ge (filteredRevenue h now st (salesReps st ! k)) (filteredRevenue h now st r))
           \<and> (\<forall>j < k. js_gt (filteredRevenue h now st (salesReps st ! k))
                            (filteredRevenue h now st (salesReps st ! j)))"
      unfolding Cons using k(1) top ge k(4) by blast
  qed
qed

text \<open>Filtered revenues 50, 200 and 200: the second representative is returned.\<close>

theorem topPerformer_first_max_witness:
  "topPerformer utcHost (\<lambda>k. 5000)
     (run (initialState emptyStorage)
        [AddRep 1 ''Ann'', AddDeal 1 (Some ''50'') 1000,
         AddRep 2 ''Bob'', AddDeal 2 (Some ''200'') 2000,
         AddRep 3 ''Cy'', AddDeal 3 (Some ''200'') 3000])
     = Some \<lparr>rep_id = 2, name = ''Bob'', deals = 1, revenue = Fin 200,
          dealHistory = [\<lparr>date = 2000, amount = Fin 200\<rparr>]\<rparr>
   \<and> topPerformer utcHost (\<lambda>k. 5000) (initialState emptyStorage) = None"
proof -
  let ?s = "run (initialState emptyStorage)
        [AddRep 1 ''Ann'', AddDeal 1 (Some ''50'') 1000,
         AddRep 2 ''Bob'', AddDeal 2 (Some ''200'') 2000,
         AddRep 3 ''Cy'', AddDeal 3 (Some ''200'') 3000]"
  have reps: "salesReps ?s =
    [\<lparr>rep_id = 1, name = ''Ann'', deals = 1, revenue = Fin 50,
       dealHistory = [\<lparr>date = 1000, amount = Fin 50\<rparr>]\<rparr>,
     \<lparr>rep_id = 2, name = ''Bob'', deals = 1, revenue = Fin 200,
       dealHistory = [\<lparr>date = 2000, amount = Fin 200\<rparr>]\<rparr>,
     \<lparr>rep_id = 3, name = ''Cy'', deals = 1, revenue = Fin 200,
       dealHistory = [\<lparr>date = 3000, amount = Fin 200\<rparr>]\<rparr>]"
    by (simp add: run_simps)
  have flt: "currentFilter ?s = ''all''"
    by (simp add: run_simps)
  have rev: "\<forall>r \<in> set (salesReps ?s). filteredRevenue utcHost 5000 ?s r \<noteq> NaN"
    by (simp add: reps flt filteredRevenue_def getFilteredStats_def getFilteredDeals_def sumAmounts_def)
  have ne: "salesReps ?s \<noteq> []"
    by (simp add: reps)
  from topPerformer_first_max [of ?s utcHost "\<lambda>k. 5000" 5000] ne rev
  obtain k where k: "k < length (salesReps ?s)" "topPerformer utcHost (\<lambda>k. 5000) ?s = Some (salesReps ?s ! k)"
    "\<forall>r \<in> set (salesReps ?s).
        js_ge (filteredRevenue utcHost 5000 ?s (salesReps ?s ! k)) (filteredRevenue utcHost 5000 ?s r)"
    "\<forall>j < k. js_gt (filteredRevenue utcHost 5000 ?s (salesReps ?s ! k))
                    (filteredRevenue utcHost 5000 ?s (salesReps ?s ! j))"
    by blast
  have revs: "filteredRevenue utcHost 5000 ?s (salesReps ?s ! 0) = Fin 50"
    "filteredRevenue utcHost 5000 ?s (salesReps ?s ! 1) = Fin 200"
    "filteredRevenue utcHost 5000 ?s (salesReps ?s ! 2) = Fin 200"
    by (simp_all add: reps flt filteredRevenue_def getFilteredStats_def getFilteredDeals_def sumAmounts_def)
  have "k = 0 \<or> k = 1 \<or> k = 2" using k(1) reps by auto
  then have "k = 1"
  proof (elim disjE)
    assume "k = 0"
    moreover have "salesReps ?s ! 1 \<in> set (salesReps ?s)" by (simp add: reps)
    ultimately have "js_ge (Fin 50) (Fin 200)" using k(3) revs by metis
    then show ?thesis by (simp add: js_ge_def)
  next
    assume "k = 1" then show ?thesis .
  next
    assume "k = 2"
    then have "js_gt (Fin 200) (Fin 200)" using k(4) revs by (metis one_less_numeral_iff semiring_norm(76))
    then show ?thesis by simp
  qed
  with k(2) have "topPerformer utcHost (\<lambda>k. 5000) ?s = Some (salesReps ?s ! 1)" by simp
  moreover from topPerformer_first_max [of "initialState emptyStorage" utcHost "\<lambda>k. 5000" 5000]
  have "topPerformer utcHost (\<lambda>k. 5000) (initialState emptyStorage) = None"
    by (simp add: initialState_def)
  ultimately show ?thesis by (simp add: reps)
qed

text \<open>
  The claim as stated fails: deals of \<^verbatim>\<open>Infinity\<close> and \<^verbatim>\<open>-Infinity\<close> add up to \<open>NaN\<close>, no
  revenue compares greater than \<open>NaN\<close>, and the first representative stays the top
  performer though the second has the revenue 5.
\<close>

theorem topPerformer_counterexample:
  "topPerformer utcHost (\<lambda>k. 5000)
     (run (initialState emptyStorage)
        [AddRep 1 ''Alice'', AddDeal 1 (Some ''Infinity'') 1000, AddDeal 1 (Some ''-Infinity'') 2000,
         AddRep 2 ''Bob'', AddDeal 2 (Some ''5'') 3000])
     = Some \<lparr>rep_id = 1, name = ''Alice'', deals = 2, revenue = NaN,
          dealHistory = [\<lparr>date = 1000, amount = PosInf\<rparr>, \<lparr>date = 2000, amount = NegInf\<rparr>]\<rparr>
   \<and> salesReps (run (initialState emptyStorage)
        [AddRep 1 ''Alice'', AddDeal 1 (Some ''Infinity'') 1000, AddDeal 1 (Some ''-Infinity'') 2000,
         AddRep 2 ''Bob'', AddDeal 2 (Some ''5'') 3000]) ! 1
     = \<lparr>rep_id = 2, name = ''Bob'', deals = 1, revenue = Fin 5,
          dealHistory = [\<lparr>date = 3000, amount = Fin 5\<rparr>]\<rparr>
   \<and> filteredRevenue utcHost 5000
        (run (initialState emptyStorage)
          [AddRep 1 ''Alice'', AddDeal 1 (Some ''Infinity'') 1000, AddDeal 1 (Some ''-Infinity'') 2000,
           AddRep 2 ''Bob'', AddDeal 2 (Some ''5'') 3000])
        \<lparr>rep_id = 1, name = ''Alice'', deals = 2, revenue = NaN,
          dealHistory = [\<lparr>date = 1000, amount = PosInf\<rparr>, \<lparr>date = 2000, amount = NegInf\<rparr>]\<rparr> = NaN
   \<and> filteredRevenue utcHost 5000
        (run (initialState emptyStorage)
          [AddRep 1 ''Alice'', AddDeal 1 (Some ''Infinity'') 1000, AddDeal 1 (Some ''-Infinity'') 2000,
           AddRep 2 ''Bob'', AddDeal 2 (Some ''5'') 3000])
        \<lparr>rep_id = 2, name = ''Bob'', deals = 1, revenue = Fin 5,
          dealHistory = [\<lparr>date = 3000, amount = Fin 5\<rparr>]\<rparr> = Fin 5
   \<and> \<not> js_ge NaN (Fin 5)"
  by (simp add: run_simps filter_simps filteredRevenue_def js_ge_def)

text \<open>
  Why the time is fixed: under \<^verbatim>\<open>week\<close>, with a deal of 100 for the first representative
  at time 0 and a deal of 50 for the second, the reduction reads the clock once for each
  of them. When the window still holds the first deal at both readings, the first
  representative is returned; when the second reading comes one millisecond after that
  deal has left the window, the second representative is.
\<close>

lemma topPerformer_clock_example:
  "topPerformer utcHost (\<lambda>k. 604800000)
     (run (initialState emptyStorage)
        [AddRep 1 ''Ann'', AddDeal 1 (Some ''100'') 0, AddRep 2 ''Bob'', AddDeal 2 (Some ''50'') 1000,
         DateFilterChange ''week''])
     = Some \<lparr>rep_id = 1, name = ''Ann'', deals = 1, revenue = Fin 100,
          dealHistory = [\<lparr>date = 0, amount = Fin 100\<rparr>]\<rparr>"
  "topPerformer utcHost (\<lambda>k. if k = 0 then 604800000 else 604800001)
     (run (initialState emptyStorage)
        [AddRep 1 ''Ann'', AddDeal 1 (Some ''100'') 0, AddRep 2 ''Bob'', AddDeal 2 (Some ''50'') 1000,
         DateFilterChange ''week''])
     = Some \<lparr>rep_id = 2, name = ''Bob'', deals = 1, revenue = Fin 50,
          dealHistory = [\<lparr>date = 1000, amount = Fin 50\<rparr>]\<rparr>"
  by (simp_all add: run_simps filter_simps)

section \<open>The deals of today\<close>

lemma count_deals:
  "foldl (\<lambda>n deal. if P deal then n + 1 else n) n ds = n + length (filter P ds)"
  by (induction ds arbitrary: n) auto

lemma count_reps:
  "foldl (\<lambda>n rep. foldl (\<lambda>n deal. if P deal then n + 1 else n) n (dealHistory rep)) n rs
     = n + length (filter P (concat (map dealHistory rs)))"
  by (induction rs arbitrary: n) (auto simp: count_deals)

lemma dealsToday_count:
  "dealsToday h now st = length (filter (sameLocalDay h now) (concat (map dealHistory (salesReps st))))"
  unfolding dealsToday_def sameLocalDay_def
  using count_reps [of "\<lambda>deal. setHoursStart h (date deal) = setHoursStart h now" 0 "salesReps st"]
  by simp

text \<open>
  Claim C9. Two states with the same representatives, whatever their filter selectors and
  custom ranges (and whatever the clock reads inside the filtered parts of
  \<^verbatim>\<open>updateAnalytics\<close>), give the same count of deals today at the same current time: the
  number of deals, over all representatives, that fall on the local calendar day of
  \<open>now\<close>.
\<close>

theorem dealsToday_ignores_filter:
  "salesReps st1 = salesReps st2 \<Longrightarrow>
   dealsTodayCount (updateAnalytics h clock1 now st1) = dealsTodayCount (updateAnalytics h clock2 now st2)
   \<and> dealsTodayCount (updateAnalytics h clock1 now st1)
       = length (filter (sameLocalDay h now) (concat (map dealHistory (salesReps st1))))"
  by (simp add: updateAnalytics_def dealsToday_count)

text \<open>
  Three deals, two of them on the day of \<open>now\<close>: the count is two under \<^verbatim>\<open>all\<close>, and two
  under a custom range that holds none of them.
\<close>

theorem dealsToday_ignores_filter_witness:
  "dealsTodayCount (updateAnalytics utcHost (\<lambda>k. 1000000000000) 1000000000000
      (run (initialState emptyStorage)
        [AddRep 1 ''Alice'', AddDeal 1 (Some ''100'') 0, AddDeal 1 (Some ''200'') 999999999000,
         AddRep 2 ''Bob'', AddDeal 2 (Some ''50'') 1000000000000])) = 2
   \<and> dealsTodayCount (updateAnalytics utcHost (\<lambda>k. 1000000000000) 1000000000000
      (run (initialState emptyStorage)
        [AddRep 1 ''Alice'', AddDeal 1 (Some ''100'') 0, AddDeal 1 (Some ''200'') 999999999000,
         AddRep 2 ''Bob'', AddDeal 2 (Some ''50'') 1000000000000, DateFilterChange ''custom'',
         ApplyDateFilterClick ''1970-01-01'' ''1970-01-02''])) = 2"
proof -
  let ?evs = "[AddRep 1 ''Alice'', AddDeal 1 (Some ''100'') 0, AddDeal 1 (Some ''200'') 999999999000,
         AddRep 2 ''Bob'', AddDeal 2 (Some ''50'') 1000000000000]"
  let ?s1 = "run (initialState emptyStorage) ?evs"
  let ?s2 = "run (initialState emptyStorage)
               (?evs @ [DateFilterChange ''custom'', ApplyDateFilterClick ''1970-01-01'' ''1970-01-02''])"
  have reps: "salesReps ?s1 = salesReps ?s2"
    by (simp add: run_def dateFilterChange_def applyDateFilterClick_def Let_def)
  have "dealsTodayCount (updateAnalytics utcHost (\<lambda>k. 1000000000000) 1000000000000 ?s1) = 2"
    by (simp add: run_simps filter_simps)
  with dealsToday_ignores_filter [OF reps, of utcHost "\<lambda>k. 1000000000000" 1000000000000 "\<lambda>k. 1000000000000"] show ?thesis
    by simp
qed

section \<open>What recording a deal leaves alone\<close>

text \<open>
  Claim C10. \<^verbatim>\<open>addDeal\<close> keeps the length of the list; every representative with another
  identifier stays as it is, every representative keeps its identifier and its name, and
  the filter selector and the custom range are unchanged. When no representative has the
  identifier, the whole list is unchanged.
\<close>

theorem recordDeal_frame:
  "length (salesReps (addDeal i dealValue now st)) = length (salesReps st)
   \<and> (\<forall>k < length (salesReps st). rep_id (salesReps st ! k) \<noteq> i \<longrightarrow>
        salesReps (addDeal i dealValue now st) ! k = salesReps st ! k)
   \<and> (\<forall>k < length (salesReps st).
        rep_id (salesReps (addDeal i dealValue now st) ! k) = rep_id (salesReps st ! k)
        \<and> name (salesReps (addDeal i dealValue now st) ! k) = name (salesReps st ! k))
   \<and> currentFilter (addDeal i dealValue now st) = currentFilter st
   \<and> customStartDate (addDeal i dealValue now st) = customStartDate st
   \<and> customEndDate (addDeal i dealValue now st) = customEndDate st
   \<and> ((\<forall>r \<in> set (salesReps st). rep_id r \<noteq> i) \<longrightarrow>
        salesReps (addDeal i dealValue now st) = salesReps st)"
proof (cases "find (\<lambda>r. rep_id r = i) (salesReps st)")
  case None
  then have "addDeal i dealValue now st = st" by (simp add: addDeal_def)
  then show ?thesis by simp
next
  case (Some rep)
  show ?thesis
  proof (cases dealValue)
    case None
    with Some have "addDeal i dealValue now st = st" by (simp add: addDeal_def)
    then show ?thesis by simp
  next
    case (Some s)
    let ?f = "\<lambda>r. r\<lparr>deals := deals r + 1, revenue := js_add (revenue r) (dealAmount s),
                      dealHistory := dealHistory r @ [\<lparr>date = now, amount = dealAmount s\<rparr>]\<rparr>"
    have reps: "salesReps (addDeal i dealValue now st) = mutateFound i ?f (salesReps st)"
      using Some \<open>find (\<lambda>r. rep_id r = i) (salesReps st) = Some rep\<close>
      by (simp add: addDeal_def Let_def)
    have vars: "currentFilter (addDeal i dealValue now st) = currentFilter st"
      "customStartDate (addDeal i dealValue now st) = customStartDate st"
      "customEndDate (addDeal i dealValue now st) = customEndDate st"
      using Some \<open>find (\<lambda>r. rep_id r = i) (salesReps st) = Some rep\<close>
      by (simp_all add: addDeal_def Let_def)
    have keeps: "\<And>r. rep_id (?f r) = rep_id r \<and> name (?f r) = name r" by simp
    have "\<forall>k < length (salesReps st).
            rep_id (mutateFound i ?f (salesReps st) ! k) = rep_id (salesReps st ! k)
            \<and> name (mutateFound i ?f (salesReps st) ! k) = name (salesReps st ! k)"
      using mutateFound_nth_keeps [of ?f _ "salesReps st" i, OF keeps] by blast
    then show ?thesis
      unfolding reps vars
      by (simp add: mutateFound_nth_other mutateFound_absent)
  qed
qed

text \<open>
  A deal for the second of two representatives leaves the first as it is; a deal for an
  identifier that no representative has leaves the list as it is.
\<close>

theorem recordDeal_frame_witness:
  "salesReps (run (initialState emptyStorage) [AddRep 1 ''Alice'', AddRep 2 ''Bob''])
     = [newRep 1 ''Alice'', newRep 2 ''Bob'']
   \<and> salesReps (addDeal 2 (Some ''7'') 3000
        (run (initialState emptyStorage) [AddRep 1 ''Alice'', AddRep 2 ''Bob''])) ! 0
       = newRep 1 ''Alice''
   \<and> name (salesReps (addDeal 2 (Some ''7'') 3000
        (run (initialState emptyStorage) [AddRep 1 ''Alice'', AddRep 2 ''Bob''])) ! 1) = ''Bob''
   \<and> currentFilter (addDeal 2 (Some ''7'') 3000
        (run (initialState emptyStorage) [AddRep 1 ''Alice'', AddRep 2 ''Bob''])) = ''all''
   \<and> salesReps (addDeal 9 (Some ''7'') 3000
        (run (initialState emptyStorage) [AddRep 1 ''Alice'', AddRep 2 ''Bob'']))
       = [newRep 1 ''Alice'', newRep 2 ''Bob'']"
proof -
  let ?s = "run (initialState emptyStorage) [AddRep 1 ''Alice'', AddRep 2 ''Bob'']"
  have reps: "salesReps ?s = [newRep 1 ''Alice'', newRep 2 ''Bob'']"
    by (simp add: run_simps newRep_def)
  have flt: "currentFilter ?s = ''all''"
    by (simp add: run_simps)
  from recordDeal_frame [of 2 "Some ''7''" 3000 ?s] recordDeal_frame [of 9 "Some ''7''" 3000 ?s]
  show ?thesis
    by (simp add: reps flt newRep_def nth_Cons' All_less_Suc)
qed

end
